theory Spec2Isabelle
  imports
    Main
    "HOL-Library.Sublist"
    "HOL-Library.Char_ord"
    "HOL-Library.List_Lexorder"
    "HOL-Library.AList"
    "HOL-Library.Code_Target_Nat"
begin

section \<open>Python values\<close>

text \<open>
  A Python \<open>bytes\<close> object is a list of \<open>char\<close>s, one per byte. The text of an archive
  member, which \<open>bytes.decode("utf-8")\<close> yields, is the list of its code points, each a
  natural number. The names that the functions are called with, the paths of the archive
  members and the file names are \<open>string\<close>s whose characters are the code points U+0000
  to U+00FF, one \<open>char\<close> per code point; \<open>text_of\<close> gives the code points of such a
  string, where the source puts it into a text.

  Exceptions are values: every \<open>raise\<close> of the source, and every exception of a library
  call that the source does not catch, is a branch returning \<open>Inl\<close>.
\<close>

type_synonym bytes = "char list"

type_synonym code_points = "nat list"

datatype error =
  FileNotFoundError string
  | ValueError string
  | TypeError string
  | IndexError
  | UnicodeDecodeError
  | UnicodeEncodeError
  | Re_error
  | BadZipFile

definition code_point :: "char \<Rightarrow> nat" where
  "code_point c = of_char c"

definition text_of :: "string \<Rightarrow> code_points" where
  "text_of s = map code_point s"

text \<open>\<open>str.isdigit\<close> on the code points of a name: the ASCII digits and the
  superscripts U+00B2, U+00B3, U+00B9.\<close>

definition isdigit :: "char \<Rightarrow> bool" where
  "isdigit c = (let n = code_point c in (48 \<le> n \<and> n \<le> 57) \<or> n = 178 \<or> n = 179 \<or> n = 185)"

text \<open>\<open>str.lower\<close>: A to Z, and U+00C0 to U+00DE but for the multiplication sign U+00D7,
  move up by 32.\<close>

definition lower_char :: "char \<Rightarrow> char" where
  "lower_char c =
     (let n = code_point c in
      if (65 \<le> n \<and> n \<le> 90) \<or> (192 \<le> n \<and> n \<le> 222 \<and> n \<noteq> 215) then char_of (n + 32) else c)"

definition lower :: "string \<Rightarrow> string" where
  "lower s = map lower_char s"

text \<open>\<open>s.split(sep)\<close> for a one-character separator, and \<open>sep.join(parts)\<close>, on strings
  and on texts.\<close>

fun str_split :: "'a \<Rightarrow> 'a list \<Rightarrow> 'a list list" where
  "str_split sep [] = [[]]"
| "str_split sep (c # cs) =
     (if c = sep then [] # str_split sep cs
      else (case str_split sep cs of [] \<Rightarrow> [[c]] | p # ps \<Rightarrow> (c # p) # ps))"

fun str_join :: "'a list \<Rightarrow> 'a list list \<Rightarrow> 'a list" where
  "str_join sep [] = []"
| "str_join sep [p] = p"
| "str_join sep (p # q # ps) = p @ sep @ str_join sep (q # ps)"

text \<open>\<open>s.rfind(c)\<close>: the index of the last occurrence, \<open>None\<close> for Python's \<open>-1\<close>.\<close>

fun rfind :: "char \<Rightarrow> string \<Rightarrow> nat option" where
  "rfind c [] = None"
| "rfind c (x # xs) =
     (case rfind c xs of
        Some i \<Rightarrow> Some (Suc i)
      | None \<Rightarrow> if x = c then Some 0 else None)"

subsection \<open>pathlib\<close>

text \<open>
  A \<open>Path\<close> is given by a string that spells it. \<open>PurePosixPath\<close> keeps the root (two
  leading slashes are a root of their own, three or more are one) and the components
  that are neither empty nor \<open>.\<close>; \<open>name\<close> is the last component, \<open>parent\<close> drops it,
  and \<open>p / q\<close> is \<open>q\<close> when \<open>q\<close> has a root. \<open>stem\<close> and \<open>suffix\<close> cut the name at its
  last dot, unless that dot is the first or the last character.
\<close>

definition path_parts :: "string \<Rightarrow> string list" where
  "path_parts p = filter (\<lambda>x. x \<noteq> [] \<and> x \<noteq> ''.'') (str_split CHR ''/'' p)"

definition path_root :: "string \<Rightarrow> string" where
  "path_root p =
     (if prefix ''//'' p \<and> \<not> prefix ''///'' p then ''//''
      else if prefix ''/'' p then ''/'' else [])"

definition path_format :: "string \<Rightarrow> string list \<Rightarrow> string" where
  "path_format root parts =
     (if root = [] \<and> parts = [] then ''.'' else root @ str_join ''/'' parts)"

definition path_str :: "string \<Rightarrow> string" where
  "path_str p = path_format (path_root p) (path_parts p)"

definition path_name :: "string \<Rightarrow> string" where
  "path_name p = (case path_parts p of [] \<Rightarrow> [] | x # xs \<Rightarrow> last (x # xs))"

definition path_parent :: "string \<Rightarrow> string" where
  "path_parent p = path_format (path_root p) (butlast (path_parts p))"

definition path_join :: "string \<Rightarrow> string \<Rightarrow> string" where
  "path_join p q =
     (if prefix ''/'' q then path_str q
      else path_format (path_root p) (path_parts p @ path_parts q))"

definition name_stem :: "string \<Rightarrow> string" where
  "name_stem name =
     (case rfind CHR ''.'' name of
        None \<Rightarrow> name
      | Some i \<Rightarrow> if 0 < i \<and> Suc i < length name then take i name else name)"

definition name_suffix :: "string \<Rightarrow> string" where
  "name_suffix name =
     (case rfind CHR ''.'' name of
        None \<Rightarrow> []
      | Some i \<Rightarrow> if 0 < i \<and> Suc i < length name then drop i name else [])"

section \<open>Filename grammar (\<open>rename.py\<close>)\<close>

text \<open>\<open>_normalize_name\<close>: \<open>re.sub(r"[-_.]+", "_", name).lower()\<close>. The substitution
  replaces every maximal run of separators by one underscore.\<close>

definition is_separator :: "char \<Rightarrow> bool" where
  "is_separator c = (c = CHR ''-'' \<or> c = CHR ''_'' \<or> c = CHR ''.'')"

function sub_separators :: "string \<Rightarrow> string" where
  "sub_separators [] = []"
| "sub_separators (c # cs) =
     (if is_separator c then CHR ''_'' # sub_separators (dropWhile is_separator cs)
      else c # sub_separators cs)"
  by pat_completeness auto
termination
  by (relation "measure length") (auto simp: less_Suc_eq_le length_dropWhile_le)

definition normalize_name :: "string \<Rightarrow> string" where
  "normalize_name name = lower (sub_separators name)"

record components =
  distribution :: string
  version :: string
  build :: string
  python :: string
  abi :: string
  platform :: string

text \<open>
  \<open>_parse_wheel_filename\<close>. \<open>parts[2][0]\<close> is evaluated only when there are six parts or
  more, and raises \<open>IndexError\<close> when the third part is empty.
\<close>

definition parse_wheel_filename :: "string \<Rightarrow> error + components" where
  "parse_wheel_filename filename =
     (let name = name_stem (path_name filename);
          parts = str_split CHR ''-'' name
      in if length parts < 5 then Inl (ValueError (''Invalid wheel filename: '' @ filename))
         else if 6 \<le> length parts \<and> parts ! 2 = [] then Inl IndexError
         else if 6 \<le> length parts \<and> isdigit (hd (parts ! 2)) then
           Inr \<lparr>distribution = parts ! 0, version = parts ! 1, build = parts ! 2,
                python = parts ! 3, abi = parts ! 4, platform = parts ! 5\<rparr>
         else
           Inr \<lparr>distribution = parts ! 0, version = parts ! 1, build = [],
                python = parts ! 2, abi = parts ! 3, platform = parts ! 4\<rparr>)"

definition build_wheel_filename :: "components \<Rightarrow> string" where
  "build_wheel_filename c =
     str_join ''-''
       ([distribution c, version c]
        @ (if build c \<noteq> [] then [build c] else [])
        @ [python c, abi c, platform c])
     @ ''.whl''"

section \<open>Library functions taken as given\<close>

text \<open>
  \<open>hashlib.sha256(data).digest()\<close> and the \<open>zipfile\<close> container are parameters of the
  model. \<open>zip_read\<close> is \<open>ZipFile(buffer, "r")\<close>: the members in the order of
  \<open>namelist()\<close>, each with its stored content, or \<open>None\<close> when the buffer is not an
  archive. \<open>zip_write\<close> is the buffer that \<open>ZipFile(buffer, "w", ZIP_DEFLATED)\<close> holds after
  one \<open>writestr\<close> per member, in the order of the list.

  Two tables of the interpreter are parameters as well. \<open>isalnum\<close> is \<open>str.isalnum\<close> of
  the code points above U+00FF (below, the table is written out in \<open>is_word\<close>).
  \<open>parse_template\<close> is what \<open>re\<close> makes of a replacement template that holds a backslash,
  for a pattern with the given number of groups: the literal pieces and the group
  references in their order, or \<open>None\<close> when the template is rejected with \<open>re.error\<close>.
\<close>

datatype template_item = Literal code_points | Group nat

record pylib =
  sha256 :: "bytes \<Rightarrow> bytes"
  zip_read :: "bytes \<Rightarrow> (string \<times> bytes) list option"
  zip_write :: "(string \<times> bytes) list \<Rightarrow> bytes"
  isalnum :: "nat \<Rightarrow> bool"
  parse_template :: "nat \<Rightarrow> string \<Rightarrow> template_item list option"

text \<open>\<open>zf.read(name)\<close> finds the member through \<open>NameToInfo\<close>, where a later member of
  the same name has replaced an earlier one.\<close>

definition zf_read :: "(string \<times> bytes) list \<Rightarrow> string \<Rightarrow> bytes" where
  "zf_read zf name = (case map_of (rev zf) name of None \<Rightarrow> [] | Some content \<Rightarrow> content)"

section \<open>Text entries\<close>

text \<open>
  The character classes of \<open>re\<close> on \<open>str\<close> patterns: \<open>\s\<close> is \<open>str.isspace\<close>, \<open>\w\<close> is
  \<open>str.isalnum\<close> or the underscore, and \<open>\b\<close> holds between two positions exactly when
  one of them is a word character and the other is not (the ends of the text count as
  non-word).
\<close>

definition is_space :: "nat \<Rightarrow> bool" where
  "is_space n =
     ((9 \<le> n \<and> n \<le> 13) \<or> (28 \<le> n \<and> n \<le> 32) \<or> n = 133 \<or> n = 160 \<or> n = 5760
      \<or> (8192 \<le> n \<and> n \<le> 8202) \<or> n = 8232 \<or> n = 8233 \<or> n = 8239 \<or> n = 8287 \<or> n = 12288)"

definition is_word :: "pylib \<Rightarrow> nat \<Rightarrow> bool" where
  "is_word L n =
     (if n < 256 then
        (48 \<le> n \<and> n \<le> 57) \<or> (65 \<le> n \<and> n \<le> 90) \<or> n = 95 \<or> (97 \<le> n \<and> n \<le> 122)
        \<or> n = 170 \<or> n = 178 \<or> n = 179 \<or> n = 181 \<or> n = 185 \<or> n = 186
        \<or> (188 \<le> n \<and> n \<le> 190) \<or> (192 \<le> n \<and> n \<le> 214) \<or> (216 \<le> n \<and> n \<le> 246)
        \<or> 248 \<le> n
      else isalnum L n)"

definition word_at :: "pylib \<Rightarrow> nat option \<Rightarrow> bool" where
  "word_at L x = (case x of None \<Rightarrow> False | Some n \<Rightarrow> is_word L n)"

definition word_boundary :: "pylib \<Rightarrow> nat option \<Rightarrow> nat option \<Rightarrow> bool" where
  "word_boundary L prev nxt = (word_at L prev \<noteq> word_at L nxt)"

text \<open>
  \<open>bytes.decode("utf-8")\<close>, with the default strict error handling. A byte below 80 is a
  code point by itself; a lead byte C2 to DF takes one continuation byte (80 to BF), E0
  to EF two and F0 to F4 three, each giving six bits under the bits of the lead byte. The
  bytes 80 to C1 and F5 to FF start nothing, and a sequence is rejected when a
  continuation byte is missing, when its value has a shorter encoding, when it is a
  surrogate (U+D800 to U+DFFF) or when it lies above U+10FFFF.
\<close>

definition continuation :: "char \<Rightarrow> bool" where
  "continuation b = (128 \<le> code_point b \<and> code_point b < 192)"

definition prepend :: "nat \<Rightarrow> error + code_points \<Rightarrow> error + code_points" where
  "prepend n r = (case r of Inl e \<Rightarrow> Inl e | Inr t \<Rightarrow> Inr (n # t))"

fun utf8_decode :: "bytes \<Rightarrow> error + code_points" where
  "utf8_decode [] = Inr []"
| "utf8_decode (b # bs) =
     (if code_point b < 128 then prepend (code_point b) (utf8_decode bs)
      else if code_point b < 194 then Inl UnicodeDecodeError
      else if code_point b < 224 then
        (case bs of
           b2 # bs' \<Rightarrow>
             if continuation b2 then
               prepend ((code_point b - 192) * 64 + (code_point b2 - 128)) (utf8_decode bs')
             else Inl UnicodeDecodeError
         | _ \<Rightarrow> Inl UnicodeDecodeError)
      else if code_point b < 240 then
        (case bs of
           b2 # b3 # bs' \<Rightarrow>
             if continuation b2 \<and> continuation b3
                \<and> 2048 \<le> (code_point b - 224) * 4096 + (code_point b2 - 128) * 64
                            + (code_point b3 - 128)
                \<and> \<not> (55296 \<le> (code_point b - 224) * 4096 + (code_point b2 - 128) * 64
                                + (code_point b3 - 128)
                      \<and> (code_point b - 224) * 4096 + (code_point b2 - 128) * 64
                          + (code_point b3 - 128) < 57344)
             then
               prepend ((code_point b - 224) * 4096 + (code_point b2 - 128) * 64
                        + (code_point b3 - 128))
                 (utf8_decode bs')
             else Inl UnicodeDecodeError
         | _ \<Rightarrow> Inl UnicodeDecodeError)
      else if code_point b < 245 then
        (case bs of
           b2 # b3 # b4 # bs' \<Rightarrow>
             if continuation b2 \<and> continuation b3 \<and> continuation b4
                \<and> 65536 \<le> (code_point b - 240) * 262144 + (code_point b2 - 128) * 4096
                             + (code_point b3 - 128) * 64 + (code_point b4 - 128)
                \<and> (code_point b - 240) * 262144 + (code_point b2 - 128) * 4096
                    + (code_point b3 - 128) * 64 + (code_point b4 - 128) < 1114112
             then
               prepend ((code_point b - 240) * 262144 + (code_point b2 - 128) * 4096
                        + (code_point b3 - 128) * 64 + (code_point b4 - 128))
                 (utf8_decode bs')
             else Inl UnicodeDecodeError
         | _ \<Rightarrow> Inl UnicodeDecodeError)
      else Inl UnicodeDecodeError)"

text \<open>
  \<open>str.encode("utf-8")\<close>: one to four bytes for each code point, and
  \<open>UnicodeEncodeError\<close> when the text holds a surrogate. (A Python \<open>str\<close> holds no
  code point above U+10FFFF.)
\<close>

definition scalar_value :: "nat \<Rightarrow> bool" where
  "scalar_value n = (n < 55296 \<or> (57344 \<le> n \<and> n < 1114112))"

definition utf8_encode_char :: "nat \<Rightarrow> bytes" where
  "utf8_encode_char n =
     (if n < 128 then [char_of n]
      else if n < 2048 then [char_of (192 + n div 64), char_of (128 + n mod 64)]
      else if n < 65536 then
        [char_of (224 + n div 4096), char_of (128 + n div 64 mod 64), char_of (128 + n mod 64)]
      else
        [char_of (240 + n div 262144), char_of (128 + n div 4096 mod 64),
         char_of (128 + n div 64 mod 64), char_of (128 + n mod 64)])"

definition utf8_encode :: "code_points \<Rightarrow> error + bytes" where
  "utf8_encode t =
     (if list_all scalar_value t then Inr (concat (map utf8_encode_char t))
      else Inl UnicodeEncodeError)"

text \<open>\<open>s.rsplit(sep, 1)\<close>: cut at the last separator, if there is one.\<close>

definition rsplit1 :: "char \<Rightarrow> string \<Rightarrow> string list" where
  "rsplit1 sep s =
     (case rfind sep s of None \<Rightarrow> [s] | Some i \<Rightarrow> [take i s, drop (Suc i) s])"

text \<open>\<open>s.replace(old, new)\<close>: every occurrence, left to right, not overlapping; with an
  empty \<open>old\<close> Python puts \<open>new\<close> before every character and at the end.
  \<open>s.replace(old, new, 1)\<close>: the first occurrence only.\<close>

function str_replace :: "string \<Rightarrow> string \<Rightarrow> string \<Rightarrow> string" where
  "str_replace [] new s = new @ concat (map (\<lambda>c. c # new) s)"
| "str_replace (p # ps) new [] = []"
| "str_replace (p # ps) new (c # cs) =
     (if prefix (p # ps) (c # cs) then new @ str_replace (p # ps) new (drop (length ps) cs)
      else c # str_replace (p # ps) new cs)"
  by pat_completeness auto
termination
  by (relation "measure (\<lambda>(old, new, s). length s)") auto

fun replace_first :: "string \<Rightarrow> string \<Rightarrow> string \<Rightarrow> string" where
  "replace_first old new [] = (if old = [] then new else [])"
| "replace_first old new (c # cs) =
     (if prefix old (c # cs) then new @ drop (length old) (c # cs)
      else c # replace_first old new cs)"

text \<open>\<open>str(n)\<close> for a length.\<close>

fun str_of_nat :: "nat \<Rightarrow> string" where
  "str_of_nat n =
     (if n < 10 then [''0123456789'' ! n]
      else str_of_nat (n div 10) @ [''0123456789'' ! (n mod 10)])"

declare str_of_nat.simps [simp del]

subsection \<open>\<open>base64.urlsafe_b64encode\<close>\<close>

definition b64_digit :: "nat \<Rightarrow> char" where
  "b64_digit n =
     ''ABCDEFGHIJKLMNOPQRSTUVWXYZabcdefghijklmnopqrstuvwxyz0123456789-_'' ! n"

fun urlsafe_b64encode :: "bytes \<Rightarrow> bytes" where
  "urlsafe_b64encode [] = []"
| "urlsafe_b64encode [x] =
     [b64_digit (code_point x div 4), b64_digit (code_point x mod 4 * 16), CHR ''='', CHR ''='']"
| "urlsafe_b64encode [x, y] =
     [b64_digit (code_point x div 4),
      b64_digit (code_point x mod 4 * 16 + code_point y div 16),
      b64_digit (code_point y mod 16 * 4), CHR ''='']"
| "urlsafe_b64encode (x # y # z # rest) =
     [b64_digit (code_point x div 4),
      b64_digit (code_point x mod 4 * 16 + code_point y div 16),
      b64_digit (code_point y mod 16 * 4 + code_point z div 64),
      b64_digit (code_point z mod 64)]
     @ urlsafe_b64encode rest"

text \<open>\<open>b.rstrip(b"=")\<close>.\<close>

definition rstrip_equals :: "bytes \<Rightarrow> bytes" where
  "rstrip_equals b = rev (dropWhile (\<lambda>c. c = CHR ''='') (rev b))"

section \<open>The rename engine (\<open>rename.py\<close>)\<close>

definition compute_record_hash :: "pylib \<Rightarrow> bytes \<Rightarrow> string" where
  "compute_record_hash L data = ''sha256='' @ rstrip_equals (urlsafe_b64encode (sha256 L data))"

text \<open>\<open>_update_metadata\<close>: its second parameter is not used.\<close>

definition update_metadata :: "bytes \<Rightarrow> string \<Rightarrow> string \<Rightarrow> error + bytes" where
  "update_metadata content old_name new_name =
     (case utf8_decode content of
        Inl e \<Rightarrow> Inl e
      | Inr text \<Rightarrow>
          utf8_encode (str_join (text_of ''\<newline>'')
            (map (\<lambda>line. if prefix (text_of ''Name:'') line then text_of (''Name: '' @ new_name)
                          else line)
               (str_split 10 text))))"

text \<open>
  \<open>_update_python_imports\<close>. \<open>re.escape\<close> makes the old name a literal of the pattern, so
  each \<open>re.sub\<close> is a scan from left to right that tries the pattern at every position
  and resumes behind a match. \<open>prev\<close> is the code point in front of the position. A
  match is replaced by the expansion of the template, where group 0 is the whole match.

  \<open>sub_from_import\<close> is \<open>re.sub(rf"\bfrom {old}(\s|\.)", template, text)\<close> and
  \<open>sub_import\<close> is \<open>re.sub(rf"\bimport {old}\b", template, text)\<close>.
\<close>

fun expand :: "template_item list \<Rightarrow> code_points list \<Rightarrow> code_points" where
  "expand [] groups = []"
| "expand (Literal s # items) groups = s @ expand items groups"
| "expand (Group i # items) groups =
     (if i < length groups then groups ! i else []) @ expand items groups"

function sub_from_import ::
  "pylib \<Rightarrow> string \<Rightarrow> template_item list \<Rightarrow> nat option \<Rightarrow> code_points \<Rightarrow> code_points" where
  "sub_from_import L old template prev [] = []"
| "sub_from_import L old template prev (c # cs) =
     (if word_boundary L prev (Some c) \<and> prefix (text_of (''from '' @ old)) (c # cs)
         \<and> drop (length (''from '' @ old)) (c # cs) \<noteq> []
         \<and> (is_space (hd (drop (length (''from '' @ old)) (c # cs)))
              \<or> hd (drop (length (''from '' @ old)) (c # cs)) = 46)
      then expand template
             [text_of (''from '' @ old) @ [hd (drop (length (''from '' @ old)) (c # cs))],
              [hd (drop (length (''from '' @ old)) (c # cs))]]
           @ sub_from_import L old template
               (Some (hd (drop (length (''from '' @ old)) (c # cs))))
               (tl (drop (length (''from '' @ old)) (c # cs)))
      else c # sub_from_import L old template (Some c) cs)"
  by pat_completeness auto
termination
  by (relation "measure (\<lambda>(L, old, template, prev, s). length s)") auto

function sub_import ::
  "pylib \<Rightarrow> string \<Rightarrow> template_item list \<Rightarrow> nat option \<Rightarrow> code_points \<Rightarrow> code_points" where
  "sub_import L old template prev [] = []"
| "sub_import L old template prev (c # cs) =
     (if word_boundary L prev (Some c) \<and> prefix (text_of (''import '' @ old)) (c # cs)
         \<and> word_boundary L (Some (last (text_of (''import '' @ old))))
              (case drop (length (''import '' @ old)) (c # cs) of [] \<Rightarrow> None | x # _ \<Rightarrow> Some x)
      then expand template [text_of (''import '' @ old)]
           @ sub_import L old template (Some (last (text_of (''import '' @ old))))
               (drop (length (''import '' @ old)) (c # cs))
      else c # sub_import L old template (Some c) cs)"
  by pat_completeness auto
termination
  by (relation "measure (\<lambda>(L, old, template, prev, s). length s)") auto

text \<open>
  The two templates, \<open>rf"from {new_name}\1"\<close> and \<open>f"import {new_name}"\<close>. A new name
  without a backslash stands for itself; one with a backslash makes \<open>re\<close> read escapes
  in it.
\<close>

definition from_template :: "pylib \<Rightarrow> string \<Rightarrow> template_item list option" where
  "from_template L new_name =
     (if CHR 0x5C \<in> set new_name
      then parse_template L 1 (''from '' @ new_name @ [CHR 0x5C, CHR ''1''])
      else Some [Literal (text_of (''from '' @ new_name)), Group 1])"

definition import_template :: "pylib \<Rightarrow> string \<Rightarrow> template_item list option" where
  "import_template L new_name =
     (if CHR 0x5C \<in> set new_name then parse_template L 0 (''import '' @ new_name)
      else Some [Literal (text_of (''import '' @ new_name))])"

definition update_python_imports :: "pylib \<Rightarrow> bytes \<Rightarrow> string \<Rightarrow> string \<Rightarrow> error + bytes" where
  "update_python_imports L content old_name new_name =
     (case utf8_decode content of
        Inl e \<Rightarrow> Inl e
      | Inr text \<Rightarrow>
          (case from_template L new_name of
             None \<Rightarrow> Inl Re_error
           | Some from_items \<Rightarrow>
               (case import_template L new_name of
                  None \<Rightarrow> Inl Re_error
                | Some import_items \<Rightarrow>
                    utf8_encode
                      (sub_import L old_name import_items None
                         (sub_from_import L old_name from_items None text)))))"

definition quoted :: "string \<Rightarrow> string" where
  "quoted s = [CHR 0x27] @ s @ [CHR 0x27]"

definition new_file_name :: "string \<Rightarrow> string \<Rightarrow> string \<Rightarrow> string \<Rightarrow> string" where
  "new_file_name old_name_normalized new_name_normalized ver name =
     (let old_dist_info = old_name_normalized @ ''-'' @ ver @ ''.dist-info'';
          new_dist_info = new_name_normalized @ ''-'' @ ver @ ''.dist-info'';
          old_data_dir = old_name_normalized @ ''-'' @ ver @ ''.data'';
          new_data_dir = new_name_normalized @ ''-'' @ ver @ ''.data''
      in if prefix (old_name_normalized @ ''/'') name \<or> name = old_name_normalized then
           new_name_normalized @ drop (length old_name_normalized) name
         else if prefix (old_dist_info @ ''/'') name \<or> name = old_dist_info then
           new_dist_info @ drop (length old_dist_info) name
         else if prefix (old_data_dir @ ''/'') name \<or> name = old_data_dir then
           new_data_dir @ drop (length old_data_dir) name
         else name)"

definition new_content ::
  "pylib \<Rightarrow> bool \<Rightarrow> string \<Rightarrow> string \<Rightarrow> string \<Rightarrow> string \<Rightarrow> string \<Rightarrow> string \<Rightarrow> bytes
     \<Rightarrow> error + bytes" where
  "new_content L update_imports old_name old_name_normalized new_name new_name_normalized ver
       file_name content =
     (if file_name = new_name_normalized @ ''-'' @ ver @ ''.dist-info'' @ ''/METADATA'' then
        update_metadata content old_name new_name
      else if update_imports \<and> suffix ''.py'' file_name then
        update_python_imports L content old_name_normalized new_name_normalized
      else Inr content)"

text \<open>
  The body of the loop over the members, which \<open>rename_wheel\<close> and
  \<open>rename_wheel_from_bytes\<close> both spell out: the new path, then the new content (which
  may raise), then the test that skips every member whose old path ends in \<open>/RECORD\<close>.
  \<open>None\<close> is the \<open>continue\<close>.
\<close>

definition rewrite_entry ::
  "pylib \<Rightarrow> bool \<Rightarrow> string \<Rightarrow> string \<Rightarrow> string \<Rightarrow> string \<Rightarrow> string \<Rightarrow> (string \<times> bytes) list
     \<Rightarrow> string \<Rightarrow> error + (string \<times> bytes) option" where
  "rewrite_entry L update_imports old_name old_name_normalized new_name new_name_normalized ver
       zf name =
     (let file_name = new_file_name old_name_normalized new_name_normalized ver name in
      case new_content L update_imports old_name old_name_normalized new_name
             new_name_normalized ver file_name (zf_read zf name) of
        Inl e \<Rightarrow> Inl e
      | Inr content \<Rightarrow> if suffix ''/RECORD'' name then Inr None else Inr (Some (file_name, content)))"

text \<open>The loop: \<open>files\<close> is the dict, in insertion order; \<open>files[k] = v\<close> is
  \<open>AList.update\<close>.\<close>

fun collect_files ::
  "(string \<Rightarrow> error + (string \<times> bytes) option) \<Rightarrow> string list \<Rightarrow> (string \<times> bytes) list
     \<Rightarrow> error + (string \<times> bytes) list" where
  "collect_files step [] files = Inr files"
| "collect_files step (name # names) files =
     (case step name of
        Inl e \<Rightarrow> Inl e
      | Inr None \<Rightarrow> collect_files step names files
      | Inr (Some (file_name, content)) \<Rightarrow>
          collect_files step names (AList.update file_name content files))"

text \<open>The new RECORD: one line for each file of the dict in the order of
  \<open>sorted(files.items())\<close>, then the line of RECORD itself; the lines are joined and
  encoded, and the entry is stored in the dict.\<close>

definition record_line :: "pylib \<Rightarrow> string \<times> bytes \<Rightarrow> string" where
  "record_line L entry =
     fst entry @ '','' @ compute_record_hash L (snd entry) @ '','' @ str_of_nat (length (snd entry))"

definition generate_record ::
  "pylib \<Rightarrow> string \<Rightarrow> (string \<times> bytes) list \<Rightarrow> error + (string \<times> bytes) list" where
  "generate_record L new_dist_info files =
     (let record_path = new_dist_info @ ''/RECORD'';
          record_lines = map (record_line L) (sort_key fst files) @ [record_path @ '',,'']
      in case utf8_encode (text_of (str_join ''\<newline>'' record_lines)) of
           Inl e \<Rightarrow> Inl e
         | Inr record_content \<Rightarrow> Inr (AList.update record_path record_content files))"

definition renamed_members ::
  "pylib \<Rightarrow> bool \<Rightarrow> string \<Rightarrow> string \<Rightarrow> string \<Rightarrow> string \<Rightarrow> string \<Rightarrow> (string \<times> bytes) list
     \<Rightarrow> error + (string \<times> bytes) list" where
  "renamed_members L update_imports old_name old_name_normalized new_name new_name_normalized
       ver zf =
     (case collect_files
             (rewrite_entry L update_imports old_name old_name_normalized new_name
                new_name_normalized ver zf)
             (map fst zf) [] of
        Inl e \<Rightarrow> Inl e
      | Inr files \<Rightarrow>
          (case generate_record L (new_name_normalized @ ''-'' @ ver @ ''.dist-info'') files of
             Inl e \<Rightarrow> Inl e
           | Inr files' \<Rightarrow> Inr (sort_key fst files')))"

text \<open>
  \<open>rename_wheel\<close>. The file system maps the string of a path to the content of the
  regular file there; directories are not modelled, so \<open>output_dir.mkdir\<close> has no
  counterpart. The result is the returned path or the exception, and the file system
  afterwards. The archive is opened when the loop starts, behind the test of the names.
\<close>

definition rename_wheel ::
  "pylib \<Rightarrow> (string \<rightharpoonup> bytes) \<Rightarrow> string \<Rightarrow> string \<Rightarrow> string option \<Rightarrow> bool
     \<Rightarrow> (error + string) \<times> (string \<rightharpoonup> bytes)" where
  "rename_wheel L fs wheel_path new_name output_dir update_imports =
     (case fs (path_str wheel_path) of
        None \<Rightarrow> (Inl (FileNotFoundError (''Wheel not found: '' @ path_str wheel_path)), fs)
      | Some wheel_bytes \<Rightarrow>
          if name_suffix (path_name wheel_path) \<noteq> ''.whl'' then
            (Inl (ValueError (''Not a wheel file: '' @ path_str wheel_path)), fs)
          else
            (case parse_wheel_filename (path_name wheel_path) of
               Inl e \<Rightarrow> (Inl e, fs)
             | Inr comps \<Rightarrow>
                 let old_name = distribution comps;
                     old_name_normalized = normalize_name old_name;
                     new_name_normalized = normalize_name new_name
                 in if old_name_normalized = new_name_normalized then
                      (Inl (ValueError (''New name '' @ quoted new_name
                              @ '' is the same as old name '' @ quoted old_name)), fs)
                    else
                      let output_path =
                            path_join
                              (case output_dir of None \<Rightarrow> path_parent wheel_path | Some d \<Rightarrow> d)
                              (build_wheel_filename (comps\<lparr>distribution := new_name_normalized\<rparr>))
                      in (case zip_read L wheel_bytes of
                            None \<Rightarrow> (Inl BadZipFile, fs)
                          | Some zf \<Rightarrow>
                              (case renamed_members L update_imports old_name
                                      old_name_normalized new_name new_name_normalized
                                      (version comps) zf of
                                 Inl e \<Rightarrow> (Inl e, fs)
                               | Inr members \<Rightarrow>
                                   (Inr output_path,
                                    fs(output_path \<mapsto> zip_write L members))))))"

text \<open>
  A call of \<open>rename_wheel\<close> with keyword arguments. \<open>keyword_arguments\<close> holds
  what the caller passes by keyword, \<open>None\<close> for a keyword that is not passed: \<open>output_dir\<close>
  and \<open>update_imports\<close>, which the function declares (with the defaults \<open>None\<close> and
  \<open>True\<close>), and \<open>rename_deps\<close>, which the scripts under \<open>tests/fixtures\<close> pass and
  the function does not declare. Python answers a call with a keyword that the function
  does not declare with \<open>TypeError\<close>, before the body runs.
\<close>

record keyword_arguments =
  kw_output_dir :: "string option option"
  kw_update_imports :: "bool option"
  kw_rename_deps :: "(string \<times> string) list option"

definition rename_wheel_call ::
  "pylib \<Rightarrow> (string \<rightharpoonup> bytes) \<Rightarrow> string \<Rightarrow> string \<Rightarrow> keyword_arguments
     \<Rightarrow> (error + string) \<times> (string \<rightharpoonup> bytes)" where
  "rename_wheel_call L fs wheel_path new_name kw =
     (case kw_rename_deps kw of
        Some mapping \<Rightarrow>
          (Inl (TypeError (''rename_wheel() got an unexpected keyword argument ''
                           @ quoted ''rename_deps'')), fs)
      | None \<Rightarrow>
          rename_wheel L fs wheel_path new_name
            (case kw_output_dir kw of None \<Rightarrow> None | Some output_dir \<Rightarrow> output_dir)
            (case kw_update_imports kw of None \<Rightarrow> True | Some update_imports \<Rightarrow> update_imports))"

text \<open>
  \<open>rename_wheel_from_bytes\<close>. The old name and the version come from the first member
  whose path contains \<open>.dist-info/\<close>; \<open>rsplit("-", 1)[1]\<close> of its first component raises
  \<open>IndexError\<close> when that component has no dash.
\<close>

definition old_name_and_version :: "(string \<times> bytes) list \<Rightarrow> error + string \<times> string" where
  "old_name_and_version zf =
     (case filter (sublist ''.dist-info/'') (map fst zf) of
        [] \<Rightarrow> Inl (ValueError ''Cannot find .dist-info directory in wheel'')
      | n # _ \<Rightarrow>
          let dist_info_name = hd (str_split CHR ''/'' n) in
          if length (rsplit1 CHR ''-'' dist_info_name) < 2 then Inl IndexError
          else
            let parts = rsplit1 CHR ''-'' (str_replace ''.dist-info'' [] dist_info_name)
            in Inr (parts ! 0, if 1 < length parts then parts ! 1 else ''0.0.0''))"

definition rename_wheel_from_bytes :: "pylib \<Rightarrow> bytes \<Rightarrow> string \<Rightarrow> bool \<Rightarrow> error + bytes" where
  "rename_wheel_from_bytes L wheel_bytes new_name update_imports =
     (case zip_read L wheel_bytes of
        None \<Rightarrow> Inl BadZipFile
      | Some zf \<Rightarrow>
          (case old_name_and_version zf of
             Inl e \<Rightarrow> Inl e
           | Inr (old_name_normalized, ver) \<Rightarrow>
               let new_name_normalized = normalize_name new_name
               in if old_name_normalized = new_name_normalized then Inr wheel_bytes
                  else
                    (case renamed_members L update_imports old_name_normalized
                            old_name_normalized new_name new_name_normalized ver zf of
                       Inl e \<Rightarrow> Inl e
                     | Inr members \<Rightarrow> Inr (zip_write L members))))"

section \<open>The proxy (\<open>server/config.py\<close>, \<open>server/stream.py\<close>, \<open>server/html.py\<close>)\<close>

record rename_rule =
  rule_original :: string
  rule_new_name :: string
  rule_version_spec :: "string option"

text \<open>The dict that \<open>get_project_page\<close> builds for a package: all four keys are
  present, the last two may be \<open>None\<close>.\<close>

record package_info =
  pkg_filename :: string
  pkg_url :: string
  pkg_requires_python :: "string option"
  pkg_hash :: "string option"

text \<open>\<open>rewrite_wheel_filename\<close> and \<open>original_filename_from_renamed\<close> of \<open>stream.py\<close>
  compare the first dash-separated segment, folded to lower case and with underscores
  turned into dashes.\<close>

definition rewrite_wheel_filename :: "string \<Rightarrow> string \<Rightarrow> string \<Rightarrow> string" where
  "rewrite_wheel_filename filename original_name new_name =
     (let parts = str_split CHR ''-'' filename
      in if str_replace ''_'' ''-'' (lower (hd parts)) = str_replace ''_'' ''-'' (lower original_name)
         then str_join ''-'' (new_name # tl parts)
         else str_join ''-'' parts)"

definition original_filename_from_renamed :: "string \<Rightarrow> string \<Rightarrow> string \<Rightarrow> string" where
  "original_filename_from_renamed renamed_filename original_name new_name =
     (let parts = str_split CHR ''-'' renamed_filename
      in if str_replace ''_'' ''-'' (lower (hd parts)) = str_replace ''_'' ''-'' (lower new_name)
         then str_join ''-'' (original_name # tl parts)
         else str_join ''-'' parts)"

text \<open>\<open>generate_project_index\<close> of \<open>html.py\<close>. \<open>listed_filename\<close> is the file name it
  shows for a package: with a rename rule,
  \<open>filename.replace(f"{rename_rule.original}-", f"{rename_rule.new_name}-", 1)\<close>.\<close>

definition listed_filename :: "rename_rule option \<Rightarrow> string \<Rightarrow> string" where
  "listed_filename rename_rule filename =
     (case rename_rule of
        None \<Rightarrow> filename
      | Some r \<Rightarrow> replace_first (rule_original r @ ''-'') (rule_new_name r @ ''-'') filename)"

definition truthy :: "string option \<Rightarrow> bool" where
  "truthy x = (case x of None \<Rightarrow> False | Some s \<Rightarrow> s \<noteq> [])"

definition package_link :: "rename_rule option \<Rightarrow> package_info \<Rightarrow> string" where
  \<open>package_link rename_rule pkg =
     (let filename = listed_filename rename_rule (pkg_filename pkg);
          url = (case rename_rule of None \<Rightarrow> pkg_url pkg | Some r \<Rightarrow> filename);
          attrs = [''href="'' @ url @ ''"'']
                  @ (if truthy (pkg_requires_python pkg)
                     then [''data-requires-python="'' @ the (pkg_requires_python pkg) @ ''"'']
                     else []);
          attrs = (if truthy (pkg_hash pkg) \<and> CHR ''#'' \<notin> set url
                   then (''href="'' @ url @ ''#'' @ the (pkg_hash pkg) @ ''"'') # tl attrs
                   else attrs)
      in ''    <a '' @ str_join '' '' attrs @ ''>'' @ filename @ ''</a>'')\<close>

definition generate_project_index ::
  "string \<Rightarrow> package_info list \<Rightarrow> rename_rule option \<Rightarrow> string" where
  \<open>generate_project_index project packages rename_rule =
     ''<!DOCTYPE html>\<newline><html>\<newline><head>\<newline>''
     @ ''    <meta name="pypi:repository-version" content="1.0">\<newline>''
     @ ''    <title>Links for '' @ project @ ''</title>\<newline></head>\<newline><body>\<newline>''
     @ ''    <h1>Links for '' @ project @ ''</h1>\<newline>''
     @ str_join ''\<newline>'' (map (package_link rename_rule) packages)
     @ ''\<newline></body>\<newline></html>\<newline>''\<close>

section \<open>The upstream client (\<open>server/upstream.py\<close>)\<close>

text \<open>
  What \<open>await self.client.get(url)\<close> does is given by a function of the URL: it raises
  an \<open>httpx.HTTPError\<close>, raises something else, or returns a response, of which the
  model keeps the status code, whether \<open>raise_for_status()\<close> raises, and the text.
  \<open>self._client\<close> is \<open>None\<close> outside of the \<open>async with\<close> block.

  The libraries \<open>pypi_simple\<close> and \<open>packaging\<close> are parameters: \<open>from_html\<close> is
  \<open>ProjectPage.from_html(project, text, base_url).packages\<close> (\<open>None\<close> when it raises),
  \<open>valid_specifier\<close> tells whether \<open>SpecifierSet(spec, prereleases=True)\<close> returns,
  \<open>specifier_nonempty\<close> is the truth value of that set, and \<open>version_in\<close> is
  \<open>Version(v) in specifier_set\<close> (\<open>None\<close> when it raises).
\<close>

record response =
  status_code :: nat
  raises_for_status :: bool
  response_text :: string

datatype http_result = Raises_HTTPError | Raises_other | Responds response

record dist_package =
  dp_filename :: string
  dp_url :: string
  dp_package_type :: "string option"
  dp_version :: "string option"
  dp_requires_python :: "string option"
  dp_digests :: "(string \<times> string) list"

record weblib =
  from_html :: "string \<Rightarrow> string \<Rightarrow> string \<Rightarrow> dist_package list option"
  valid_specifier :: "string \<Rightarrow> bool"
  specifier_nonempty :: "string \<Rightarrow> bool"
  version_in :: "string \<Rightarrow> string \<Rightarrow> bool option"

datatype client_error = RuntimeError | Uncaught_exception

definition rstrip_slash :: "string \<Rightarrow> string" where
  "rstrip_slash s = rev (dropWhile (\<lambda>c. c = CHR ''/'') (rev s))"

definition package_hash :: "(string \<times> string) list \<Rightarrow> string option" where
  "package_hash digests =
     (case filter (\<lambda>algo. map_of digests algo \<noteq> None) [''sha256'', ''sha384'', ''sha512'', ''md5''] of
        [] \<Rightarrow> None
      | algo # _ \<Rightarrow> Some (algo @ ''='' @ the (map_of digests algo)))"

definition pkg_info :: "dist_package \<Rightarrow> package_info" where
  "pkg_info pkg =
     \<lparr>pkg_filename = dp_filename pkg, pkg_url = dp_url pkg,
      pkg_requires_python = dp_requires_python pkg,
      pkg_hash = package_hash (dp_digests pkg)\<rparr>"

text \<open>The test of the inner loop: only wheels, and with a version specifier only the
  versions in it; a version that does not parse is skipped.\<close>

definition listed :: "weblib \<Rightarrow> string option \<Rightarrow> dist_package \<Rightarrow> bool" where
  "listed W version_spec pkg =
     (dp_package_type pkg = Some ''wheel''
      \<and> (case version_spec of
           None \<Rightarrow> True
         | Some spec \<Rightarrow>
             if specifier_nonempty W spec \<and> truthy (dp_version pkg)
             then version_in W (the (dp_version pkg)) spec = Some True
             else True))"

text \<open>What follows a good response: parse the page, build the specifier set of the rule
  (which may raise), filter, and return.\<close>

definition page_packages ::
  "weblib \<Rightarrow> string \<Rightarrow> rename_rule option \<Rightarrow> string \<Rightarrow> string \<Rightarrow> client_error + package_info list" where
  "page_packages W project rename_rule upstream_url page_text =
     (case from_html W project page_text upstream_url of
        None \<Rightarrow> Inl Uncaught_exception
      | Some packages \<Rightarrow>
          (case (case rename_rule of
                   None \<Rightarrow> None
                 | Some r \<Rightarrow> if truthy (rule_version_spec r) then rule_version_spec r else None) of
             None \<Rightarrow> Inr (map pkg_info (filter (listed W None) packages))
           | Some spec \<Rightarrow>
               if valid_specifier W spec
               then Inr (map pkg_info (filter (listed W (Some spec)) packages))
               else Inl Uncaught_exception))"

definition project_url :: "string \<Rightarrow> string \<Rightarrow> string" where
  "project_url upstream_url project = rstrip_slash upstream_url @ ''/'' @ project @ ''/''"

text \<open>The outcomes of a request after which the loop goes on to the next upstream.\<close>

definition tries_next :: "http_result \<Rightarrow> bool" where
  "tries_next outcome =
     (case outcome of
        Raises_HTTPError \<Rightarrow> True
      | Raises_other \<Rightarrow> False
      | Responds r \<Rightarrow> status_code r = 404 \<or> raises_for_status r)"

fun get_project_page ::
  "weblib \<Rightarrow> (string \<Rightarrow> http_result) option \<Rightarrow> string list \<Rightarrow> string \<Rightarrow> rename_rule option
     \<Rightarrow> client_error + package_info list" where
  "get_project_page W client [] project rename_rule = Inr []"
| "get_project_page W client (upstream_url # upstreams) project rename_rule =
     (case client of
        None \<Rightarrow> Inl RuntimeError
      | Some get \<Rightarrow>
          (case get (project_url upstream_url project) of
             Raises_HTTPError \<Rightarrow> get_project_page W client upstreams project rename_rule
           | Raises_other \<Rightarrow> Inl Uncaught_exception
           | Responds r \<Rightarrow>
               if status_code r = 404 then get_project_page W client upstreams project rename_rule
               else if raises_for_status r then
                 get_project_page W client upstreams project rename_rule
               else page_packages W project rename_rule upstream_url (response_text r)))"


section \<open>What the manifest has to be\<close>

text \<open>
  The digest of a RECORD line as the format has it: \<open>sha256=\<close> and the URL-safe base64
  digits of the digest without padding (three bytes give four digits, a rest of one byte
  two digits, a rest of two bytes three). \<open>manifest_complete\<close> says of the members of
  an archive that their paths are in ascending order and without repetition, and that the
  member at \<open>record_path\<close> is the UTF-8 encoding of, line by line, one
  \<open>path,digest,size\<close> for each other member in that order and a last line
  \<open>record_path,,\<close>.
\<close>

fun urlsafe_b64_unpadded :: "bytes \<Rightarrow> bytes" where
  "urlsafe_b64_unpadded [] = []"
| "urlsafe_b64_unpadded [x] =
     [b64_digit (code_point x div 4), b64_digit (code_point x mod 4 * 16)]"
| "urlsafe_b64_unpadded [x, y] =
     [b64_digit (code_point x div 4),
      b64_digit (code_point x mod 4 * 16 + code_point y div 16),
      b64_digit (code_point y mod 16 * 4)]"
| "urlsafe_b64_unpadded (x # y # z # rest) =
     [b64_digit (code_point x div 4),
      b64_digit (code_point x mod 4 * 16 + code_point y div 16),
      b64_digit (code_point y mod 16 * 4 + code_point z div 64),
      b64_digit (code_point z mod 64)]
     @ urlsafe_b64_unpadded rest"

definition manifest_line :: "pylib \<Rightarrow> string \<times> bytes \<Rightarrow> string" where
  "manifest_line L entry =
     fst entry @ '','' @ ''sha256='' @ urlsafe_b64_unpadded (sha256 L (snd entry))
       @ '','' @ str_of_nat (length (snd entry))"

definition manifest_complete :: "pylib \<Rightarrow> string \<Rightarrow> (string \<times> bytes) list \<Rightarrow> bool" where
  "manifest_complete L record_path members =
     (sorted (map fst members) \<and> distinct (map fst members)
      \<and> (case map_of members record_path of
           None \<Rightarrow> False
         | Some content \<Rightarrow>
             utf8_encode (text_of (str_join ''\<newline>''
               (map (manifest_line L) (filter (\<lambda>entry. fst entry \<noteq> record_path) members)
                @ [record_path @ '',,'']))) = Inr content))"

section \<open>Where the old name may stand in the paths\<close>





section \<open>Example inputs\<close>

text \<open>
  A library instance for the examples below. The buffer \<open>demo wheel\<close> is an archive of
  three members, \<open>bare wheel\<close> one without a metadata directory, \<open>mypkg wheel\<close> the
  wheel \<open>mypkg-1.0.0-py3-none-any.whl\<close> that \<open>tests/fixtures/conflicting-deps/create_wheels.py\<close>
  builds, \<open>odd wheel\<close> one whose metadata directory is named
  \<open>a-2.data-2.dist-info\<close>, and \<open>utf8 wheel\<close> one whose module has a comment with
  U+2014, U+00E9 and U+1F600 in it and whose metadata has U+2014; nothing else is an archive. The digest is 32 zero
  bytes, a written archive lists each member as its path, a colon, its content and a
  semicolon, no code point above U+00FF is alphanumeric, and every template with a
  backslash is rejected.
\<close>

definition demo_members :: "(string \<times> bytes) list" where
  "demo_members =
     [(''demo/__init__.py'', ''from demo import x\<newline>import demo\<newline>''),
      (''demo-1.0.0.dist-info/METADATA'', ''Name: demo\<newline>Requires-Dist: zarr>=2\<newline>''),
      (''demo-1.0.0.dist-info/RECORD'', [])]"

definition bare_members :: "(string \<times> bytes) list" where
  "bare_members = [(''demo/__init__.py'', []), (''demo/data/RECORD'', ''x'')]"

definition mypkg_members :: "(string \<times> bytes) list" where
  \<open>mypkg_members =
     [(''mypkg/__init__.py'',
       ''"""Package mypkg version 1.0.0."""\<newline>__version__ = "1.0.0"\<newline>\<newline>''
       @ ''from mydep import get_value\<newline>\<newline>def run():\<newline>''
       @ ''    return f"mypkg v1 using {get_value()}"\<newline>\<newline>''),
      (''mypkg-1.0.0.dist-info/METADATA'',
       ''Metadata-Version: 2.1\<newline>Name: mypkg\<newline>Version: 1.0.0\<newline>''
       @ ''Requires-Dist: mydep<2\<newline>''),
      (''mypkg-1.0.0.dist-info/WHEEL'',
       ''Wheel-Version: 1.0\<newline>Generator: test\<newline>Root-Is-Purelib: true\<newline>''
       @ ''Tag: py3-none-any\<newline>''),
      (''mypkg-1.0.0.dist-info/RECORD'', [])]\<close>

definition odd_members :: "(string \<times> bytes) list" where
  "odd_members =
     [(''a-2.data-2.dist-info/METADATA'', ''Name: a-2.data\<newline>''),
      (''a-2.data-2.data/x'', ''x'')]"

definition utf8_members :: "(string \<times> bytes) list" where
  "utf8_members =
     [(''demo/__init__.py'',
       ''# '' @ [CHR 0xE2, CHR 0x80, CHR 0x94] @ '' caf'' @ [CHR 0xC3, CHR 0xA9] @ '' ''
       @ [CHR 0xF0, CHR 0x9F, CHR 0x98, CHR 0x80] @ ''\<newline>import demo\<newline>''),
      (''demo-1.0.0.dist-info/METADATA'',
       ''Name: demo\<newline>Summary: demo '' @ [CHR 0xE2, CHR 0x80, CHR 0x94] @ '' a wheel\<newline>''),
      (''demo-1.0.0.dist-info/RECORD'', [])]"

definition demo_lib :: pylib where
  "demo_lib =
     \<lparr>sha256 = (\<lambda>data. replicate 32 (CHR 0x00)),
      zip_read = (\<lambda>b. if b = ''demo wheel'' then Some demo_members
                       else if b = ''bare wheel'' then Some bare_members
                       else if b = ''mypkg wheel'' then Some mypkg_members
                       else if b = ''odd wheel'' then Some odd_members
                       else if b = ''utf8 wheel'' then Some utf8_members else None),
      zip_write = (\<lambda>members. concat (map (\<lambda>(n, c). n @ '':'' @ c @ '';'') members)),
      isalnum = (\<lambda>n. False),
      parse_template = (\<lambda>groups template. None)\<rparr>"

definition demo_rule :: rename_rule where
  "demo_rule = \<lparr>rule_original = ''demo'', rule_new_name = ''demo_v1'', rule_version_spec = None\<rparr>"

definition wheel_page :: "dist_package list" where
  "wheel_page =
     [\<lparr>dp_filename = ''demo-1.0.0-py3-none-any.whl'',
       dp_url = ''https://b.example/files/demo-1.0.0-py3-none-any.whl'',
       dp_package_type = Some ''wheel'', dp_version = Some ''1.0.0'',
       dp_requires_python = None, dp_digests = []\<rparr>]"

text \<open>Two upstreams: the first answers 200 with a page that lists no wheel, the second
  answers 200 with a page of one wheel; every other URL fails.\<close>

definition demo_weblib :: weblib where
  "demo_weblib =
     \<lparr>from_html = (\<lambda>project page_text base. if page_text = ''one wheel'' then Some wheel_page else Some []),
      valid_specifier = (\<lambda>spec. True),
      specifier_nonempty = (\<lambda>spec. True),
      version_in = (\<lambda>v spec. Some True)\<rparr>"

definition demo_client :: "string \<Rightarrow> http_result" where
  "demo_client url =
     (if url = ''https://a.example/simple/demo/'' then
        Responds \<lparr>status_code = 200, raises_for_status = False, response_text = ''no wheel''\<rparr>
      else if url = ''https://b.example/simple/demo/'' then
        Responds \<lparr>status_code = 200, raises_for_status = False, response_text = ''one wheel''\<rparr>
      else if url = ''https://c.example/simple/demo/'' then
        Responds \<lparr>status_code = 404, raises_for_status = True, response_text = []\<rparr>
      else Raises_HTTPError)"

section \<open>Properties of the string operations\<close>

lemma str_split_not_Nil [simp]: "str_split sep s \<noteq> []"
  by (cases s) (simp_all split: list.splits)

lemma str_split_no_sep: "sep \<notin> set p \<Longrightarrow> str_split sep p = [p]"
  by (induction p) auto

lemma str_split_append:
  "sep \<notin> set p \<Longrightarrow> str_split sep (p @ sep # rest) = p # str_split sep rest"
  by (induction p) auto

lemma rfind_append_last:
  "c \<notin> set t \<Longrightarrow> rfind c (s @ c # t) = Some (length s)"
proof (induction s)
  case Nil
  have "rfind c t = None" using Nil by (induction t) auto
  then show ?case by simp
next
  case (Cons x s)
  then show ?case by simp
qed

lemma name_stem_whl: "s \<noteq> [] \<Longrightarrow> name_stem (s @ ''.whl'') = s"
proof -
  assume ne: "s \<noteq> []"
  have "rfind CHR ''.'' (s @ CHR ''.'' # ''whl'') = Some (length s)"
    by (rule rfind_append_last) simp
  with ne show ?thesis by (simp add: name_stem_def)
qed

lemma path_name_plain:
  "CHR ''/'' \<notin> set f \<Longrightarrow> f \<noteq> [] \<Longrightarrow> f \<noteq> ''.'' \<Longrightarrow> path_name f = f"
  by (simp add: path_name_def path_parts_def str_split_no_sep)

lemma isdigit_ascii: "c \<in> set ''0123456789'' \<Longrightarrow> isdigit c"
  by (auto simp: isdigit_def code_point_def)


lemma str_join_split: "str_join [sep] (str_split sep s) = s"
proof (induction s)
  case Nil
  then show ?case by simp
next
  case (Cons c s)
  obtain p ps where sp: "str_split sep s = p # ps"
    by (cases "str_split sep s") simp_all
  show ?case
  proof (cases ps)
    case Nil
    with Cons sp show ?thesis by auto
  next
    case (Cons q qs)
    with Cons.IH sp show ?thesis by auto
  qed
qed

lemma str_split_join:
  "ps \<noteq> [] \<Longrightarrow> \<forall>p \<in> set ps. sep \<notin> set p \<Longrightarrow> str_split sep (str_join [sep] ps) = ps"
proof (induction ps rule: induct_list012)
  case 1
  then show ?case by simp
next
  case (2 p)
  then show ?case by (simp add: str_split_no_sep)
next
  case (3 p q ps)
  then show ?case by (simp add: str_split_append)
qed

subsection \<open>UTF-8\<close>

lemma utf8_decode_examples:
  "utf8_decode [CHR 0x41, CHR 0xC3, CHR 0xA9, CHR 0xE2, CHR 0x80, CHR 0x94,
                CHR 0xF0, CHR 0x9F, CHR 0x98, CHR 0x80] = Inr [65, 233, 8212, 128512]"
  "utf8_encode [65, 233, 8212, 128512] =
     Inr [CHR 0x41, CHR 0xC3, CHR 0xA9, CHR 0xE2, CHR 0x80, CHR 0x94,
          CHR 0xF0, CHR 0x9F, CHR 0x98, CHR 0x80]"
  "utf8_decode [CHR 0xC4, CHR 0x80] = Inr [256]"
  "utf8_decode [CHR 0xC0, CHR 0x80] = Inl UnicodeDecodeError"
  "utf8_decode [CHR 0xE0, CHR 0x9F, CHR 0xBF] = Inl UnicodeDecodeError"
  "utf8_decode [CHR 0xED, CHR 0xA0, CHR 0x80] = Inl UnicodeDecodeError"
  "utf8_decode [CHR 0xF4, CHR 0x90, CHR 0x80, CHR 0x80] = Inl UnicodeDecodeError"
  "utf8_decode [CHR 0xE2, CHR 0x80] = Inl UnicodeDecodeError"
  "utf8_decode [CHR 0x80] = Inl UnicodeDecodeError"
  "utf8_encode [55296] = Inl UnicodeEncodeError"
  by code_simp+

lemma update_python_imports_beyond_latin1:
  "update_python_imports demo_lib
     (''# '' @ [CHR 0xE2, CHR 0x80, CHR 0x94] @ '' caf'' @ [CHR 0xC3, CHR 0xA9] @ '' ''
      @ [CHR 0xF0, CHR 0x9F, CHR 0x98, CHR 0x80] @ ''\<newline>import demo\<newline>'')
     ''demo'' ''demo_v1''
   = Inr (''# '' @ [CHR 0xE2, CHR 0x80, CHR 0x94] @ '' caf'' @ [CHR 0xC3, CHR 0xA9] @ '' ''
          @ [CHR 0xF0, CHR 0x9F, CHR 0x98, CHR 0x80] @ ''\<newline>import demo_v1\<newline>'')"
  by code_simp

subsection \<open>The upstream loop\<close>

lemma get_project_page_next:
  "tries_next (get (project_url u project)) \<Longrightarrow>
     get_project_page W (Some get) (u # us) project rename_rule =
     get_project_page W (Some get) us project rename_rule"
  by (auto simp: tries_next_def split: http_result.splits)

subsection \<open>Base64 without padding\<close>

lemma code_point_less_256: "code_point c < 256"
  by (simp add: code_point_def)

lemma b64_digit_not_equals: "n < 64 \<Longrightarrow> b64_digit n \<noteq> CHR ''=''"
proof -
  let ?alphabet = "''ABCDEFGHIJKLMNOPQRSTUVWXYZabcdefghijklmnopqrstuvwxyz0123456789-_''"
  assume "n < 64"
  then have "?alphabet ! n \<in> set ?alphabet" by (intro nth_mem) simp
  moreover have "CHR ''='' \<notin> set ?alphabet" by simp
  ultimately show ?thesis unfolding b64_digit_def by metis
qed

lemma rstrip_equals_Nil [simp]: "rstrip_equals [] = []"
  by (simp add: rstrip_equals_def)

lemma rstrip_equals_padding [simp]:
  "rstrip_equals ''='' = []" "rstrip_equals ''=='' = []"
  by (simp_all add: rstrip_equals_def)

lemma rstrip_equals_append:
  "c \<noteq> CHR ''='' \<Longrightarrow> rstrip_equals (xs @ c # ys) = xs @ c # rstrip_equals ys"
  by (simp add: rstrip_equals_def dropWhile_append)

lemma b64_indices:
  "code_point x div 4 < 64" "code_point x mod 4 * 16 < 64"
  "code_point x mod 4 * 16 + code_point y div 16 < 64"
  "code_point y mod 16 * 4 < 64"
  "code_point y mod 16 * 4 + code_point z div 64 < 64"
  "code_point z mod 64 < 64"
proof -
  have x: "code_point x < 256" and y: "code_point y < 256" and z: "code_point z < 256"
    by (rule code_point_less_256)+
  show "code_point x div 4 < 64" using x by simp
  have m4: "code_point x mod 4 < 4" by simp
  then show "code_point x mod 4 * 16 < 64" by linarith
  have "code_point y div 16 < 16" using y by simp
  with m4 show "code_point x mod 4 * 16 + code_point y div 16 < 64" by linarith
  have m16: "code_point y mod 16 < 16" by simp
  then show "code_point y mod 16 * 4 < 64" by linarith
  have "code_point z div 64 < 4" using z by simp
  with m16 show "code_point y mod 16 * 4 + code_point z div 64 < 64" by linarith
  show "code_point z mod 64 < 64" by simp
qed

lemma rstrip_urlsafe_b64encode: "rstrip_equals (urlsafe_b64encode b) = urlsafe_b64_unpadded b"
proof (induction b rule: urlsafe_b64encode.induct)
  case 1
  then show ?case by simp
next
  case (2 x)
  have "rstrip_equals ([b64_digit (code_point x div 4)] @ b64_digit (code_point x mod 4 * 16) # ''=='')
        = [b64_digit (code_point x div 4)] @ b64_digit (code_point x mod 4 * 16) # rstrip_equals ''==''"
    by (rule rstrip_equals_append) (rule b64_digit_not_equals, rule b64_indices)
  then show ?case by simp
next
  case (3 x y)
  let ?a = "[b64_digit (code_point x div 4), b64_digit (code_point x mod 4 * 16 + code_point y div 16)]"
  have "rstrip_equals (?a @ b64_digit (code_point y mod 16 * 4) # ''='')
        = ?a @ b64_digit (code_point y mod 16 * 4) # rstrip_equals ''=''"
    by (rule rstrip_equals_append) (rule b64_digit_not_equals, rule b64_indices)
  then show ?case by simp
next
  case (4 x y z rest)
  let ?a = "[b64_digit (code_point x div 4), b64_digit (code_point x mod 4 * 16 + code_point y div 16),
             b64_digit (code_point y mod 16 * 4 + code_point z div 64)]"
  have "rstrip_equals (?a @ b64_digit (code_point z mod 64) # urlsafe_b64encode rest)
        = ?a @ b64_digit (code_point z mod 64) # rstrip_equals (urlsafe_b64encode rest)"
    by (rule rstrip_equals_append) (rule b64_digit_not_equals, rule b64_indices)
  with 4 show ?case by simp
qed

lemma record_line_eq: "record_line L entry = manifest_line L entry"
  by (simp add: record_line_def manifest_line_def compute_record_hash_def rstrip_urlsafe_b64encode)

lemma update_fresh: "k \<notin> fst ` set al \<Longrightarrow> AList.update k v al = al @ [(k, v)]"
  by (induction al) auto

lemma collect_files_distinct:
  "collect_files step names files = Inr out \<Longrightarrow> distinct (map fst files)
     \<Longrightarrow> distinct (map fst out)"
proof (induction names arbitrary: files)
  case Nil
  then show ?case by simp
next
  case (Cons name names)
  show ?case
  proof (cases "step name")
    case (Inl e)
    with Cons.prems show ?thesis by simp
  next
    case (Inr r)
    show ?thesis
    proof (cases r)
      case None
      with Cons Inr show ?thesis by simp
    next
      case (Some entry)
      obtain file_name content where entry: "entry = (file_name, content)" by (cases entry)
      have "distinct (map fst (AList.update file_name content files))"
        using Cons.prems(2) by (rule distinct_update)
      moreover have "collect_files step names (AList.update file_name content files) = Inr out"
        using Cons.prems(1) Inr Some entry by simp
      ultimately show ?thesis by (rule Cons.IH [rotated])
    qed
  qed
qed

lemma collect_files_keys:
  "collect_files step names files = Inr out \<Longrightarrow>
     fst ` set out =
       fst ` set files \<union> {file_name. \<exists>name \<in> set names. \<exists>content. step name = Inr (Some (file_name, content))}"
proof (induction names arbitrary: files)
  case Nil
  then show ?case by simp
next
  case (Cons name names)
  show ?case
  proof (cases "step name")
    case (Inl e)
    with Cons.prems show ?thesis by simp
  next
    case (Inr r)
    show ?thesis
    proof (cases r)
      case None
      with Cons Inr show ?thesis by auto
    next
      case (Some entry)
      obtain file_name content where entry: "entry = (file_name, content)" by (cases entry)
      have "collect_files step names (AList.update file_name content files) = Inr out"
        using Cons.prems Inr Some entry by simp
      from Cons.IH [OF this] show ?thesis
        using Inr Some entry by (auto simp: dom_update)
    qed
  qed
qed

subsection \<open>The loop over the members and the new RECORD\<close>

lemma new_file_name_cases [case_names root dist_info data other]:
  obtains
    r where "name = old_n @ r" "r = [] \<or> hd r = CHR ''/''"
      "new_file_name old_n new_n ver name = new_n @ r"
  | r where "name = old_n @ ''-'' @ ver @ ''.dist-info'' @ r" "r = [] \<or> hd r = CHR ''/''"
      "new_file_name old_n new_n ver name = new_n @ ''-'' @ ver @ ''.dist-info'' @ r"
  | r where "name = old_n @ ''-'' @ ver @ ''.data'' @ r" "r = [] \<or> hd r = CHR ''/''"
      "new_file_name old_n new_n ver name = new_n @ ''-'' @ ver @ ''.data'' @ r"
  | "new_file_name old_n new_n ver name = name"
      "\<not> prefix (old_n @ ''/'') name" "name \<noteq> old_n"
      "\<not> prefix (old_n @ ''-'' @ ver @ ''.dist-info'' @ ''/'') name"
      "\<not> prefix (old_n @ ''-'' @ ver @ ''.data'' @ ''/'') name"
proof -
  let ?di = "old_n @ ''-'' @ ver @ ''.dist-info''"
  let ?dd = "old_n @ ''-'' @ ver @ ''.data''"
  have split_off: "\<exists>r. name = p @ r \<and> (r = [] \<or> hd r = CHR ''/'') \<and> drop (length p) name = r"
    if "prefix (p @ ''/'') name \<or> name = p" for p
    using that by (auto simp: prefix_def)
  consider (a) "prefix (old_n @ ''/'') name \<or> name = old_n"
    | (b) "\<not> (prefix (old_n @ ''/'') name \<or> name = old_n)" "prefix (?di @ ''/'') name \<or> name = ?di"
    | (c) "\<not> (prefix (old_n @ ''/'') name \<or> name = old_n)"
          "\<not> (prefix (?di @ ''/'') name \<or> name = ?di)" "prefix (?dd @ ''/'') name \<or> name = ?dd"
    | (d) "\<not> (prefix (old_n @ ''/'') name \<or> name = old_n)"
          "\<not> (prefix (?di @ ''/'') name \<or> name = ?di)"
          "\<not> (prefix (?dd @ ''/'') name \<or> name = ?dd)"
    by blast
  then show thesis
  proof cases
    case a
    from split_off [OF a] obtain r where "name = old_n @ r" "r = [] \<or> hd r = CHR ''/''"
      "drop (length old_n) name = r" by blast
    moreover from a have "new_file_name old_n new_n ver name = new_n @ drop (length old_n) name"
      by (simp add: new_file_name_def)
    ultimately show thesis using that(1) by simp
  next
    case b
    from split_off [OF b(2)] obtain r where "name = ?di @ r" "r = [] \<or> hd r = CHR ''/''"
      "drop (length ?di) name = r" by blast
    moreover from b have "new_file_name old_n new_n ver name
        = (new_n @ ''-'' @ ver @ ''.dist-info'') @ drop (length ?di) name"
      by (simp add: new_file_name_def)
    ultimately show thesis using that(2) by simp
  next
    case c
    from split_off [OF c(3)] obtain r where "name = ?dd @ r" "r = [] \<or> hd r = CHR ''/''"
      "drop (length ?dd) name = r" by blast
    moreover from c have "new_file_name old_n new_n ver name
        = (new_n @ ''-'' @ ver @ ''.data'') @ drop (length ?dd) name"
      by (simp add: new_file_name_def)
    ultimately show thesis using that(3) by simp
  next
    case d
    then have "new_file_name old_n new_n ver name = name" by (simp add: new_file_name_def)
    with d show thesis using that(4) by simp
  qed
qed

lemma rewrite_entry_Some:
  "rewrite_entry L upd old_name old_n new_name new_n ver zf name = Inr (Some (file_name, content))
     \<Longrightarrow> file_name = new_file_name old_n new_n ver name \<and> \<not> suffix ''/RECORD'' name"
  by (auto simp: rewrite_entry_def Let_def split: sum.splits if_splits)

lemma new_file_name_not_record:
  assumes "\<not> suffix ''/RECORD'' name"
  shows "new_file_name old_n new_n ver name \<noteq> new_n @ ''-'' @ ver @ ''.dist-info'' @ ''/RECORD''"
proof (cases rule: new_file_name_cases [where name = name and old_n = old_n and new_n = new_n and ver = ver])
  case (root r)
  then show ?thesis by auto
next
  case (dist_info r)
  with assms show ?thesis by (auto simp: suffix_def)
next
  case (data r)
  then show ?thesis by auto
next
  case other
  with assms show ?thesis by (auto simp: suffix_def)
qed

lemma record_line_fun_eq: "record_line L = manifest_line L"
  by (rule ext) (rule record_line_eq)

lemma distinct_map_sort_key: "distinct (map f (sort_key g xs)) = distinct (map f xs)"
  by (simp add: distinct_map)

lemma renamed_members_collect:
  assumes "renamed_members L upd old_name old_n new_name new_n ver zf = Inr members"
  obtains files rc where
    "collect_files (rewrite_entry L upd old_name old_n new_name new_n ver zf) (map fst zf) [] = Inr files"
    "utf8_encode (text_of (str_join ''\<newline>''
       (map (record_line L) (sort_key fst files)
        @ [(new_n @ ''-'' @ ver @ ''.dist-info'') @ ''/RECORD'' @ '',,'']))) = Inr rc"
    "members = sort_key fst (AList.update ((new_n @ ''-'' @ ver @ ''.dist-info'') @ ''/RECORD'') rc files)"
proof -
  let ?step = "rewrite_entry L upd old_name old_n new_name new_n ver zf"
  from assms obtain files where cf: "collect_files ?step (map fst zf) [] = Inr files"
    by (cases "collect_files ?step (map fst zf) []") (simp_all add: renamed_members_def)
  from assms cf obtain files' where
    g: "generate_record L (new_n @ ''-'' @ ver @ ''.dist-info'') files = Inr files'"
    and m: "members = sort_key fst files'"
    by (cases "generate_record L (new_n @ ''-'' @ ver @ ''.dist-info'') files")
       (auto simp: renamed_members_def)
  let ?lines = "text_of (str_join ''\<newline>''
       (map (record_line L) (sort_key fst files)
        @ [(new_n @ ''-'' @ ver @ ''.dist-info'') @ ''/RECORD'' @ '',,'']))"
  from g obtain rc where enc: "utf8_encode ?lines = Inr rc"
    and f: "files' = AList.update ((new_n @ ''-'' @ ver @ ''.dist-info'') @ ''/RECORD'') rc files"
    by (cases "utf8_encode ?lines") (auto simp: generate_record_def Let_def)
  from cf enc m f show thesis by (auto intro: that)
qed

lemma collected_not_record:
  assumes cf: "collect_files (rewrite_entry L upd old_name old_n new_name new_n ver zf) names [] = Inr files"
  shows "new_n @ ''-'' @ ver @ ''.dist-info/RECORD'' \<notin> fst ` set files"
proof
  assume "new_n @ ''-'' @ ver @ ''.dist-info/RECORD'' \<in> fst ` set files"
  with collect_files_keys [OF cf] obtain name content where
    "rewrite_entry L upd old_name old_n new_name new_n ver zf name
       = Inr (Some (new_n @ ''-'' @ ver @ ''.dist-info/RECORD'', content))"
    by auto
  from rewrite_entry_Some [OF this]
  have "new_n @ ''-'' @ ver @ ''.dist-info/RECORD'' = new_file_name old_n new_n ver name"
    and "\<not> suffix ''/RECORD'' name" by simp_all
  with new_file_name_not_record [of name old_n new_n ver] show False by simp
qed

lemma sorted_with_record:
  assumes dist: "distinct (map fst files)" and fresh: "rp \<notin> fst ` set files"
    and m: "members = sort_key fst (files @ [(rp, rc)])"
  shows "sorted (map fst members)" "distinct (map fst members)"
    "filter (\<lambda>entry. fst entry \<noteq> rp) members = sort_key fst files"
    "map_of members rp = Some rc"
proof -
  show "sorted (map fst members)" unfolding m by (rule sorted_sort_key)
  have "distinct (map fst (files @ [(rp, rc)]))" using dist fresh by simp
  then show d: "distinct (map fst members)" unfolding m by (simp only: distinct_map_sort_key)
  have "filter (\<lambda>entry. fst entry \<noteq> rp) (files @ [(rp, rc)]) = files"
    using fresh by (auto simp: filter_id_conv)
  then show "filter (\<lambda>entry. fst entry \<noteq> rp) members = sort_key fst files"
    unfolding m by (simp only: filter_sort)
  have "(rp, rc) \<in> set members" unfolding m by simp
  with d show "map_of members rp = Some rc" by (rule map_of_is_SomeI)
qed

lemma renamed_members_manifest:
  assumes "renamed_members L upd old_name old_n new_name new_n ver zf = Inr members"
  shows "manifest_complete L (new_n @ ''-'' @ ver @ ''.dist-info/RECORD'') members"
proof -
  let ?rp = "new_n @ ''-'' @ ver @ ''.dist-info/RECORD''"
  from assms obtain files rc where
    cf: "collect_files (rewrite_entry L upd old_name old_n new_name new_n ver zf) (map fst zf) [] = Inr files"
    and enc: "utf8_encode (text_of (str_join ''\<newline>''
       (map (record_line L) (sort_key fst files)
        @ [(new_n @ ''-'' @ ver @ ''.dist-info'') @ ''/RECORD'' @ '',,'']))) = Inr rc"
    and members: "members = sort_key fst (AList.update ((new_n @ ''-'' @ ver @ ''.dist-info'') @ ''/RECORD'') rc files)"
    by (rule renamed_members_collect)
  have dist: "distinct (map fst files)"
    using collect_files_distinct [OF cf] by simp
  have fresh: "?rp \<notin> fst ` set files" using cf by (rule collected_not_record)
  have m: "members = sort_key fst (files @ [(?rp, rc)])"
    unfolding members using update_fresh [OF fresh, of rc] by simp
  note facts = sorted_with_record [OF dist fresh m]
  have "utf8_encode (text_of (str_join ''\<newline>''
      (map (manifest_line L) (filter (\<lambda>entry. fst entry \<noteq> ?rp) members) @ [?rp @ '',,''])))
      = Inr rc"
    unfolding facts(3) using enc by (simp add: record_line_fun_eq)
  with facts(1,2,4) show ?thesis unfolding manifest_complete_def by simp
qed

lemma rename_wheel_success:
  assumes "rename_wheel L fs wheel_path new_name output_dir upd = (Inr output_path, fs')"
  obtains wheel_bytes comps zf members where
    "fs (path_str wheel_path) = Some wheel_bytes"
    "parse_wheel_filename (path_name wheel_path) = Inr comps"
    "normalize_name (distribution comps) \<noteq> normalize_name new_name"
    "zip_read L wheel_bytes = Some zf"
    "renamed_members L upd (distribution comps) (normalize_name (distribution comps)) new_name
       (normalize_name new_name) (version comps) zf = Inr members"
    "fs' = fs(output_path \<mapsto> zip_write L members)"
proof -
  from assms obtain wheel_bytes where wb: "fs (path_str wheel_path) = Some wheel_bytes"
    by (cases "fs (path_str wheel_path)") (simp_all add: rename_wheel_def)
  from assms wb have sfx: "name_suffix (path_name wheel_path) = ''.whl''"
    by (simp add: rename_wheel_def split: if_splits)
  from assms wb sfx obtain comps where p: "parse_wheel_filename (path_name wheel_path) = Inr comps"
    by (cases "parse_wheel_filename (path_name wheel_path)") (simp_all add: rename_wheel_def)
  from assms wb sfx p have ne: "normalize_name (distribution comps) \<noteq> normalize_name new_name"
    by (simp add: rename_wheel_def Let_def split: if_splits)
  from assms wb sfx p ne obtain zf where z: "zip_read L wheel_bytes = Some zf"
    by (cases "zip_read L wheel_bytes") (simp_all add: rename_wheel_def Let_def)
  from assms wb sfx p ne z obtain members where
    r: "renamed_members L upd (distribution comps) (normalize_name (distribution comps)) new_name
          (normalize_name new_name) (version comps) zf = Inr members"
    by (cases "renamed_members L upd (distribution comps) (normalize_name (distribution comps))
                 new_name (normalize_name new_name) (version comps) zf")
       (simp_all add: rename_wheel_def Let_def)
  from assms wb sfx p ne z r have "fs' = fs(output_path \<mapsto> zip_write L members)"
    by (auto simp: rename_wheel_def Let_def)
  with wb p ne z r show thesis by (rule that)
qed

lemma rename_wheel_from_bytes_success:
  assumes "zip_read L wheel_bytes = Some zf"
    and "old_name_and_version zf = Inr (old_name, ver)"
    and "old_name \<noteq> normalize_name new_name"
    and "rename_wheel_from_bytes L wheel_bytes new_name upd = Inr out"
  obtains members where
    "renamed_members L upd old_name old_name new_name (normalize_name new_name) ver zf = Inr members"
    "out = zip_write L members"
  using assms
  by (auto simp: rename_wheel_from_bytes_def Let_def split: sum.splits)

subsection \<open>The paths of the renamed members\<close>

























section \<open>Round trip of the filename grammar\<close>

text \<open>
  C7. A well-formed wheel filename is \<open>d-v[-b]-p-a-pl.whl\<close>: no component contains a dash
  or a slash, and the build tag \<open>b\<close>, when there is one, starts with a digit. On every
  such filename \<open>_parse_wheel_filename\<close> returns the six components (the build tag empty
  when the name has five segments), and \<open>_build_wheel_filename\<close> of them is the filename
  again.
\<close>

theorem build_parse_round_trip:
  assumes comps: "\<forall>s \<in> set [d, v, b, p, a, pl]. CHR ''-'' \<notin> set s \<and> CHR ''/'' \<notin> set s"
    and tag: "b = [] \<or> hd b \<in> set ''0123456789''"
    and f: "f = d @ ''-'' @ v @ (if b = [] then [] else ''-'' @ b)
                  @ ''-'' @ p @ ''-'' @ a @ ''-'' @ pl @ ''.whl''"
  shows "parse_wheel_filename f =
           Inr \<lparr>distribution = d, version = v, build = b, python = p, abi = a, platform = pl\<rparr>
         \<and> (\<exists>c. parse_wheel_filename f = Inr c \<and> build_wheel_filename c = f)"
proof -
  let ?stem = "d @ ''-'' @ v @ (if b = [] then [] else ''-'' @ b) @ ''-'' @ p @ ''-'' @ a @ ''-'' @ pl"
  let ?c = "\<lparr>distribution = d, version = v, build = b, python = p, abi = a, platform = pl\<rparr>"
  have f_stem: "f = ?stem @ ''.whl''" using f by simp
  have stem_ne: "?stem \<noteq> []" by simp
  have no_slash: "CHR ''/'' \<notin> set f" using comps f by auto
  have "f \<noteq> []" "f \<noteq> ''.''" using f_stem by auto
  then have name: "path_name f = f" using no_slash by (simp add: path_name_plain)
  have stem: "name_stem f = ?stem" unfolding f_stem using stem_ne by (rule name_stem_whl)
  have d: "CHR ''-'' \<notin> set d" and v: "CHR ''-'' \<notin> set v" and b: "CHR ''-'' \<notin> set b"
    and p: "CHR ''-'' \<notin> set p" and a: "CHR ''-'' \<notin> set a" and pl: "CHR ''-'' \<notin> set pl"
    using comps by auto
  have "str_split CHR ''-'' ?stem = [d, v] @ (if b = [] then [] else [b]) @ [p, a, pl]"
    using d v b p a pl by (simp add: str_split_append str_split_no_sep)
  then have parts: "str_split CHR ''-'' (name_stem (path_name f))
      = [d, v] @ (if b = [] then [] else [b]) @ [p, a, pl]"
    by (simp only: name stem)
  have parse: "parse_wheel_filename f = Inr ?c"
  proof (cases "b = []")
    case True
    then show ?thesis by (simp add: parse_wheel_filename_def parts Let_def)
  next
    case False
    then have "isdigit (hd b)" using tag by (auto intro: isdigit_ascii)
    with False show ?thesis by (simp add: parse_wheel_filename_def parts Let_def)
  qed
  have "build_wheel_filename ?c = f" by (simp add: build_wheel_filename_def f)
  with parse show ?thesis by simp
qed

theorem build_parse_round_trip_witness:
  "parse_wheel_filename ''mypackage-1.0.0-1-py3-none-any.whl'' =
     Inr \<lparr>distribution = ''mypackage'', version = ''1.0.0'', build = ''1'',
          python = ''py3'', abi = ''none'', platform = ''any''\<rparr>
   \<and> (\<exists>c. parse_wheel_filename ''mypackage-1.0.0-1-py3-none-any.whl'' = Inr c
          \<and> build_wheel_filename c = ''mypackage-1.0.0-1-py3-none-any.whl'')"
  using build_parse_round_trip
    [of "''mypackage''" "''1.0.0''" "''1''" "''py3''" "''none''" "''any''"
        "''mypackage-1.0.0-1-py3-none-any.whl''"]
  by (simp add: build_wheel_filename_def)

section \<open>Renaming to the same name\<close>

text \<open>
  C2, as the code has it. When the wheel file exists, has the suffix \<open>.whl\<close> and a name
  that parses, and the new name normalizes to the normalized distribution name of the
  file, \<open>rename_wheel\<close> raises the \<open>ValueError\<close> that names both and leaves the file
  system as it was. (The in-memory rename does not raise there: see
  \<open>from_bytes_same_name_returns_input\<close>.)
\<close>

theorem rename_wheel_same_name_rejected:
  assumes "fs (path_str wheel_path) = Some wheel_bytes"
    and "name_suffix (path_name wheel_path) = ''.whl''"
    and "parse_wheel_filename (path_name wheel_path) = Inr comps"
    and "normalize_name new_name = normalize_name (distribution comps)"
  shows "rename_wheel L fs wheel_path new_name output_dir update_imports =
           (Inl (ValueError (''New name '' @ quoted new_name
                   @ '' is the same as old name '' @ quoted (distribution comps))), fs)"
  using assms by (simp add: rename_wheel_def Let_def)

theorem rename_wheel_same_name_rejected_witness:
  "rename_wheel demo_lib [''dist/demo-1.0.0-py3-none-any.whl'' \<mapsto> ''demo wheel'']
       ''dist/demo-1.0.0-py3-none-any.whl'' ''Demo'' None True =
     (Inl (ValueError (''New name '' @ quoted ''Demo''
             @ '' is the same as old name '' @ quoted ''demo'')),
      [''dist/demo-1.0.0-py3-none-any.whl'' \<mapsto> ''demo wheel''])"
proof -
  let ?p = "''dist/demo-1.0.0-py3-none-any.whl''"
  let ?c = "\<lparr>distribution = ''demo'', version = ''1.0.0'', build = [],
             python = ''py3'', abi = ''none'', platform = ''any''\<rparr>"
  have 1: "[?p \<mapsto> ''demo wheel''] (path_str ?p) = Some ''demo wheel''" by code_simp
  have 2: "name_suffix (path_name ?p) = ''.whl''" by code_simp
  have 3: "parse_wheel_filename (path_name ?p) = Inr ?c" by code_simp
  have 4: "normalize_name ''Demo'' = normalize_name (distribution ?c)" by code_simp
  show ?thesis
    using rename_wheel_same_name_rejected
      [where fs = "[?p \<mapsto> ''demo wheel'']" and L = demo_lib and output_dir = None
         and update_imports = True, OF 1 2 3 4]
    by (simp add: quoted_def)
qed

text \<open>
  The claim as stated fails for the in-memory rename: the wheel \<open>demo wheel\<close> has the
  distribution name \<open>demo\<close>, the new name \<open>Demo\<close> normalizes to it, and
  \<open>rename_wheel_from_bytes\<close> returns the buffer instead of raising.
\<close>

theorem from_bytes_same_name_not_rejected:
  "normalize_name ''Demo'' = ''demo''
   \<and> old_name_and_version demo_members = Inr (''demo'', ''1.0.0'')
   \<and> rename_wheel_from_bytes demo_lib ''demo wheel'' ''Demo'' True = Inr ''demo wheel''"
  by code_simp

section \<open>The same name in memory\<close>

text \<open>
  C10. When the buffer is an archive whose first member with \<open>.dist-info/\<close> in its path
  yields a distribution name equal to the normalized new name,
  \<open>rename_wheel_from_bytes\<close> returns the very buffer it was given.
\<close>

theorem from_bytes_same_name_returns_input:
  assumes "zip_read L wheel_bytes = Some zf"
    and "old_name_and_version zf = Inr (old_name, ver)"
    and "old_name = normalize_name new_name"
  shows "rename_wheel_from_bytes L wheel_bytes new_name update_imports = Inr wheel_bytes"
  using assms by (simp add: rename_wheel_from_bytes_def)

theorem from_bytes_same_name_returns_input_witness:
  "rename_wheel_from_bytes demo_lib ''demo wheel'' ''DEMO'' False = Inr ''demo wheel''"
proof -
  have 1: "zip_read demo_lib ''demo wheel'' = Some demo_members" by code_simp
  have 2: "old_name_and_version demo_members = Inr (''demo'', ''1.0.0'')" by code_simp
  have 3: "''demo'' = normalize_name ''DEMO''" by code_simp
  show ?thesis using from_bytes_same_name_returns_input [OF 1 2 3] by simp
qed

section \<open>Archives without a metadata directory\<close>

text \<open>
  C4, as the code has it. When no member of the archive has \<open>.dist-info/\<close> in its path,
  \<open>rename_wheel_from_bytes\<close> raises \<open>ValueError("Cannot find .dist-info directory in
  wheel")\<close>. (\<open>rename_wheel\<close> takes name and version from the file name and makes no such
  test.)
\<close>

theorem from_bytes_no_dist_info:
  assumes "zip_read L wheel_bytes = Some zf"
    and "\<forall>n \<in> set (map fst zf). \<not> sublist ''.dist-info/'' n"
  shows "rename_wheel_from_bytes L wheel_bytes new_name update_imports =
           Inl (ValueError ''Cannot find .dist-info directory in wheel'')"
proof -
  have "filter (sublist ''.dist-info/'') (map fst zf) = []"
    using assms(2) by (simp add: filter_empty_conv)
  then show ?thesis
    using assms(1) by (simp add: rename_wheel_from_bytes_def old_name_and_version_def)
qed

theorem from_bytes_no_dist_info_witness:
  "rename_wheel_from_bytes demo_lib ''bare wheel'' ''demo_v1'' True =
     Inl (ValueError ''Cannot find .dist-info directory in wheel'')"
proof -
  have 1: "zip_read demo_lib ''bare wheel'' = Some bare_members" by code_simp
  have 2: "\<forall>n \<in> set (map fst bare_members). \<not> sublist ''.dist-info/'' n" by code_simp
  show ?thesis using from_bytes_no_dist_info [OF 1 2] by simp
qed

text \<open>
  The claim as stated fails for the file-based rename: the archive at
  \<open>demo-1.0.0-py3-none-any.whl\<close> has no member under \<open>demo-1.0.0.dist-info/\<close>, and
  \<open>rename_wheel\<close> returns the path of the archive it wrote.
\<close>

theorem rename_wheel_without_dist_info_succeeds:
  "filter (prefix ''demo-1.0.0.dist-info/'') (map fst bare_members) = [] \<and>
   fst (rename_wheel demo_lib [''demo-1.0.0-py3-none-any.whl'' \<mapsto> ''bare wheel'']
          ''demo-1.0.0-py3-none-any.whl'' ''demo_v1'' None True) =
     Inr ''demo_v1-1.0.0-py3-none-any.whl''"
  by code_simp

section \<open>File names in a project listing\<close>

text \<open>
  C3. With a rename rule, \<open>generate_project_index\<close> replaces the first occurrence of the
  text \<open>{original}-\<close> wherever it stands in the file name. For the rule
  \<open>demo = demo_v1\<close> the file \<open>my_demo-1.0-py3-none-any.whl\<close>, whose first segment is not
  \<open>demo\<close>, is listed as \<open>my_demo_v1-1.0-py3-none-any.whl\<close>; for the rule
  \<open>none = none_v1\<close> the file \<open>None-1.0-py3-none-any.whl\<close> is listed with its ABI tag
  changed. \<open>rewrite_wheel_filename\<close> of \<open>stream.py\<close>, which compares the first segment,
  leaves the first file name alone and replaces the first segment only of the second.
\<close>

theorem listing_replaces_inside_filename:
  \<open>listed_filename (Some demo_rule) ''my_demo-1.0-py3-none-any.whl''
     = ''my_demo_v1-1.0-py3-none-any.whl''
   \<and> rewrite_wheel_filename ''my_demo-1.0-py3-none-any.whl'' ''demo'' ''demo_v1''
     = ''my_demo-1.0-py3-none-any.whl''
   \<and> listed_filename
       (Some \<lparr>rule_original = ''none'', rule_new_name = ''none_v1'', rule_version_spec = None\<rparr>)
       ''None-1.0-py3-none-any.whl''
     = ''None-1.0-py3-none_v1-any.whl''
   \<and> rewrite_wheel_filename ''None-1.0-py3-none-any.whl'' ''none'' ''none_v1''
     = ''none_v1-1.0-py3-none-any.whl''
   \<and> generate_project_index ''demo_v1''
       [\<lparr>pkg_filename = ''my_demo-1.0-py3-none-any.whl'',
         pkg_url = ''https://files.example/my_demo-1.0-py3-none-any.whl'',
         pkg_requires_python = None, pkg_hash = None\<rparr>]
       (Some demo_rule)
     = ''<!DOCTYPE html>\<newline><html>\<newline><head>\<newline>''
       @ ''    <meta name="pypi:repository-version" content="1.0">\<newline>''
       @ ''    <title>Links for demo_v1</title>\<newline></head>\<newline><body>\<newline>''
       @ ''    <h1>Links for demo_v1</h1>\<newline>''
       @ ''    <a href="my_demo_v1-1.0-py3-none-any.whl">my_demo_v1-1.0-py3-none-any.whl</a>''
       @ ''\<newline></body>\<newline></html>\<newline>''\<close>
  by code_simp

section \<open>The order of the upstreams\<close>

text \<open>
  C5, as the code has it. \<open>get_project_page\<close> goes through the upstreams in order. An
  upstream whose request raises an \<open>httpx.HTTPError\<close>, answers 404, or answers with a
  status that \<open>raise_for_status\<close> rejects, is passed over. When every upstream is passed
  over the result is the empty list. Otherwise the result is what the page of the first
  upstream that is not passed over yields, whether that list is empty or not; the
  upstreams after it are not asked.
\<close>

theorem get_project_page_first_good_response:
  assumes "\<forall>u \<in> set failed. tries_next (get (project_url u project))"
  shows "get_project_page W (Some get) failed project rename_rule = Inr []
       \<and> (get (project_url u project) = Responds r \<longrightarrow> status_code r \<noteq> 404
            \<longrightarrow> \<not> raises_for_status r
            \<longrightarrow> get_project_page W (Some get) (failed @ u # rest) project rename_rule
                = page_packages W project rename_rule u (response_text r))"
  using assms
proof (induction failed)
  case Nil
  then show ?case by (simp add: project_url_def)
next
  case (Cons f failed)
  then show ?case by (simp add: get_project_page_next del: get_project_page.simps)
qed

theorem get_project_page_first_good_response_witness:
  "get_project_page demo_weblib (Some demo_client)
      [''https://c.example/simple/'', ''https://d.example/simple''] ''demo'' None = Inr []
   \<and> get_project_page demo_weblib (Some demo_client)
      ([''https://c.example/simple/'', ''https://d.example/simple'']
         @ ''https://b.example/simple'' # [''https://a.example/simple'']) ''demo'' None
     = page_packages demo_weblib ''demo'' None ''https://b.example/simple'' ''one wheel''"
proof -
  let ?failed = "[''https://c.example/simple/'', ''https://d.example/simple'']"
  let ?r = "\<lparr>status_code = 200, raises_for_status = False, response_text = ''one wheel''\<rparr>"
  have 1: "\<forall>u \<in> set ?failed. tries_next (demo_client (project_url u ''demo''))"
    by code_simp
  have 2: "demo_client (project_url ''https://b.example/simple'' ''demo'') = Responds ?r"
    by code_simp
  show ?thesis
    using get_project_page_first_good_response
      [where get = demo_client and failed = ?failed and project = "''demo''"
         and u = "''https://b.example/simple''" and r = ?r and W = demo_weblib
         and rename_rule = None and rest = "[''https://a.example/simple'']", OF 1]
      2
    by simp
qed

text \<open>
  The claim as stated fails where the first good response lists no wheel: the upstream
  \<open>a.example\<close> answers 200 with an empty list of wheels, \<open>b.example\<close> has a wheel of
  the project, and the result is the empty list.
\<close>

theorem empty_first_response_is_returned:
  "get_project_page demo_weblib (Some demo_client)
      [''https://a.example/simple'', ''https://b.example/simple''] ''demo'' None = Inr []
   \<and> get_project_page demo_weblib (Some demo_client)
      [''https://b.example/simple''] ''demo'' None
     = Inr [\<lparr>pkg_filename = ''demo-1.0.0-py3-none-any.whl'',
             pkg_url = ''https://b.example/files/demo-1.0.0-py3-none-any.whl'',
             pkg_requires_python = None, pkg_hash = None\<rparr>]"
  by code_simp

section \<open>Dependency names in the metadata\<close>

text \<open>
  C9. The scripts \<open>tests/fixtures/conflicting-deps/test_conflict.py\<close> and
  \<open>tests/fixtures/zarr-compat/test_zarr_compat.py\<close> call \<open>rename_wheel\<close> with the
  keyword \<open>rename_deps\<close> and describe the dependency as renamed by it. \<open>rename_wheel\<close>
  has no such parameter: the call of the first script, on the wheel
  \<open>mypkg-1.0.0-py3-none-any.whl\<close> that its \<open>create_wheels.py\<close> builds, raises
  \<open>TypeError\<close> and writes nothing. The same call without the keyword succeeds, and the
  metadata entry of the wheel it writes still requires \<open>mydep<2\<close>: \<open>_update_metadata\<close>
  rewrites the \<open>Name:\<close> line and nothing else.
\<close>

theorem rename_deps_keyword_rejected:
  \<open>fst (rename_wheel_call demo_lib [''wheels/mypkg-1.0.0-py3-none-any.whl'' \<mapsto> ''mypkg wheel'']
          ''wheels/mypkg-1.0.0-py3-none-any.whl'' ''mypkg_v1''
          \<lparr>kw_output_dir = Some (Some ''renamed''), kw_update_imports = None,
            kw_rename_deps = Some [(''mydep'', ''mydep_v1'')]\<rparr>)
     = Inl (TypeError (''rename_wheel() got an unexpected keyword argument ''
                       @ quoted ''rename_deps''))
   \<and> snd (rename_wheel_call demo_lib [''wheels/mypkg-1.0.0-py3-none-any.whl'' \<mapsto> ''mypkg wheel'']
          ''wheels/mypkg-1.0.0-py3-none-any.whl'' ''mypkg_v1''
          \<lparr>kw_output_dir = Some (Some ''renamed''), kw_update_imports = None,
            kw_rename_deps = Some [(''mydep'', ''mydep_v1'')]\<rparr>)
        ''renamed/mypkg_v1-1.0.0-py3-none-any.whl''
     = None
   \<and> fst (rename_wheel_call demo_lib [''wheels/mypkg-1.0.0-py3-none-any.whl'' \<mapsto> ''mypkg wheel'']
          ''wheels/mypkg-1.0.0-py3-none-any.whl'' ''mypkg_v1''
          \<lparr>kw_output_dir = Some (Some ''renamed''), kw_update_imports = None,
            kw_rename_deps = None\<rparr>)
     = Inr ''renamed/mypkg_v1-1.0.0-py3-none-any.whl''
   \<and> (case renamed_members demo_lib True ''mypkg'' ''mypkg'' ''mypkg_v1'' ''mypkg_v1'' ''1.0.0''
             mypkg_members of
        Inl e \<Rightarrow> False
      | Inr members \<Rightarrow>
          snd (rename_wheel_call demo_lib
                 [''wheels/mypkg-1.0.0-py3-none-any.whl'' \<mapsto> ''mypkg wheel'']
                 ''wheels/mypkg-1.0.0-py3-none-any.whl'' ''mypkg_v1''
          \<lparr>kw_output_dir = Some (Some ''renamed''), kw_update_imports = None,
            kw_rename_deps = None\<rparr>)
              ''renamed/mypkg_v1-1.0.0-py3-none-any.whl''
            = Some (zip_write demo_lib members)
        \<and> map_of members ''mypkg_v1-1.0.0.dist-info/METADATA''
            = Some (''Metadata-Version: 2.1\<newline>Name: mypkg_v1\<newline>Version: 1.0.0\<newline>''
                    @ ''Requires-Dist: mydep<2\<newline>''))
   \<and> update_metadata
        (''Metadata-Version: 2.1\<newline>Name: mypkg\<newline>Version: 1.0.0\<newline>''
         @ ''Requires-Dist: mydep<2\<newline>'')
        ''mypkg'' ''mypkg_v1''
     = Inr (''Metadata-Version: 2.1\<newline>Name: mypkg_v1\<newline>Version: 1.0.0\<newline>''
            @ ''Requires-Dist: mydep<2\<newline>'')\<close>
  by code_simp

section \<open>Import text outside of import statements\<close>


section \<open>No path under the old name\<close>




text \<open>
  An entry whose path ends in \<open>/RECORD\<close> is skipped by the loop wherever it lies:
  of the members \<open>demo/__init__.py\<close> and \<open>demo/data/RECORD\<close> the renamed archive
  keeps the first only.
\<close>

lemma nested_record_entry_skipped:
  "map fst bare_members = [''demo/__init__.py'', ''demo/data/RECORD'']
   \<and> (case renamed_members demo_lib True ''demo'' ''demo'' ''demo_v1'' ''demo_v1'' ''1.0.0''
            bare_members of
        Inl e \<Rightarrow> False
      | Inr members \<Rightarrow>
          map fst members = [''demo_v1-1.0.0.dist-info/RECORD'', ''demo_v1/__init__.py''])"
  by code_simp

section \<open>The regenerated RECORD\<close>

text \<open>
  C1. Whenever \<open>rename_wheel\<close> returns a path, the archive it wrote there, and whenever
  \<open>rename_wheel_from_bytes\<close> renames (the old name differs from the normalized new
  name), the archive it returns, has members that are \<open>manifest_complete\<close> for the path
  \<open>{new}-{version}.dist-info/RECORD\<close>: the paths ascend without repetition, and RECORD
  holds for every other member, in that order, the line of its path, \<open>sha256=\<close> with the
  unpadded URL-safe base64 of the SHA-256 of its content, and the length of its content,
  and then the line \<open>{record_path},,\<close>.
\<close>

theorem record_regenerated:
  "(rename_wheel L fs wheel_path new_name output_dir update_imports = (Inr output_path, fs')
      \<longrightarrow> (\<exists>comps members.
             parse_wheel_filename (path_name wheel_path) = Inr comps
           \<and> fs' output_path = Some (zip_write L members)
           \<and> manifest_complete L
               (normalize_name new_name @ ''-'' @ version comps @ ''.dist-info/RECORD'') members))
   \<and> (zip_read L wheel_bytes = Some zf \<longrightarrow> old_name_and_version zf = Inr (old_name, ver)
      \<longrightarrow> old_name \<noteq> normalize_name new_name
      \<longrightarrow> rename_wheel_from_bytes L wheel_bytes new_name update_imports = Inr out
      \<longrightarrow> (\<exists>members.
             out = zip_write L members
           \<and> manifest_complete L (normalize_name new_name @ ''-'' @ ver @ ''.dist-info/RECORD'')
               members))"
proof (intro conjI impI)
  assume "rename_wheel L fs wheel_path new_name output_dir update_imports = (Inr output_path, fs')"
  then obtain wheel_bytes comps zf members where
    p: "parse_wheel_filename (path_name wheel_path) = Inr comps"
    and r: "renamed_members L update_imports (distribution comps)
       (normalize_name (distribution comps)) new_name (normalize_name new_name) (version comps) zf
       = Inr members"
    and w: "fs' = fs(output_path \<mapsto> zip_write L members)"
    by (rule rename_wheel_success)
  from renamed_members_manifest [OF r] p w
  show "\<exists>comps members.
          parse_wheel_filename (path_name wheel_path) = Inr comps
        \<and> fs' output_path = Some (zip_write L members)
        \<and> manifest_complete L
            (normalize_name new_name @ ''-'' @ version comps @ ''.dist-info/RECORD'') members"
    by auto
next
  assume "zip_read L wheel_bytes = Some zf" "old_name_and_version zf = Inr (old_name, ver)"
    "old_name \<noteq> normalize_name new_name"
    "rename_wheel_from_bytes L wheel_bytes new_name update_imports = Inr out"
  then obtain members where
    r: "renamed_members L update_imports old_name old_name new_name (normalize_name new_name) ver zf
          = Inr members"
    and o: "out = zip_write L members"
    by (rule rename_wheel_from_bytes_success)
  from renamed_members_manifest [OF r] o
  show "\<exists>members. out = zip_write L members
      \<and> manifest_complete L (normalize_name new_name @ ''-'' @ ver @ ''.dist-info/RECORD'') members"
    by auto
qed

theorem record_regenerated_witness:
  "(\<exists>fs' comps members.
      rename_wheel demo_lib [''dist/demo-1.0.0-py3-none-any.whl'' \<mapsto> ''utf8 wheel'']
        ''dist/demo-1.0.0-py3-none-any.whl'' ''demo_v1'' None True
        = (Inr ''dist/demo_v1-1.0.0-py3-none-any.whl'', fs')
    \<and> parse_wheel_filename (path_name ''dist/demo-1.0.0-py3-none-any.whl'') = Inr comps
    \<and> fs' ''dist/demo_v1-1.0.0-py3-none-any.whl'' = Some (zip_write demo_lib members)
    \<and> manifest_complete demo_lib
          (normalize_name ''demo_v1'' @ ''-'' @ version comps @ ''.dist-info/RECORD'') members)
   \<and> (\<exists>members.
      rename_wheel_from_bytes demo_lib ''utf8 wheel'' ''demo_v1'' True
        = Inr (zip_write demo_lib members)
    \<and> manifest_complete demo_lib
          (normalize_name ''demo_v1'' @ ''-'' @ ''1.0.0'' @ ''.dist-info/RECORD'') members)"
proof -
  let ?fs = "[''dist/demo-1.0.0-py3-none-any.whl'' \<mapsto> ''utf8 wheel'']"
  let ?run = "rename_wheel demo_lib ?fs ''dist/demo-1.0.0-py3-none-any.whl'' ''demo_v1'' None True"
  have "fst ?run = Inr ''dist/demo_v1-1.0.0-py3-none-any.whl''" by code_simp
  then have 1: "?run = (Inr ''dist/demo_v1-1.0.0-py3-none-any.whl'', snd ?run)"
    by (simp add: prod_eq_iff)
  have 2: "zip_read demo_lib ''utf8 wheel'' = Some utf8_members" by code_simp
  have 3: "old_name_and_version utf8_members = Inr (''demo'', ''1.0.0'')" by code_simp
  have 4: "''demo'' \<noteq> normalize_name ''demo_v1''" by code_simp
  have "case rename_wheel_from_bytes demo_lib ''utf8 wheel'' ''demo_v1'' True of
          Inl e \<Rightarrow> False | Inr out \<Rightarrow> True"
    by code_simp
  then obtain out where 5: "rename_wheel_from_bytes demo_lib ''utf8 wheel'' ''demo_v1'' True = Inr out"
    by (cases "rename_wheel_from_bytes demo_lib ''utf8 wheel'' ''demo_v1'' True") simp_all
  note inst = record_regenerated
    [where L = demo_lib and fs = ?fs and wheel_path = "''dist/demo-1.0.0-py3-none-any.whl''"
       and new_name = "''demo_v1''" and output_dir = None and update_imports = True
       and output_path = "''dist/demo_v1-1.0.0-py3-none-any.whl''" and fs' = "snd ?run"
       and wheel_bytes = "''utf8 wheel''" and zf = utf8_members and old_name = "''demo''"
       and ver = "''1.0.0''" and out = out]
  from inst 1 have a: "\<exists>comps members.
      parse_wheel_filename (path_name ''dist/demo-1.0.0-py3-none-any.whl'') = Inr comps
    \<and> snd ?run ''dist/demo_v1-1.0.0-py3-none-any.whl'' = Some (zip_write demo_lib members)
    \<and> manifest_complete demo_lib
          (normalize_name ''demo_v1'' @ ''-'' @ version comps @ ''.dist-info/RECORD'') members"
    by blast
  from inst 2 3 4 5 have b: "\<exists>members. out = zip_write demo_lib members
    \<and> manifest_complete demo_lib
          (normalize_name ''demo_v1'' @ ''-'' @ ''1.0.0'' @ ''.dist-info/RECORD'') members"
    by blast
  from a 1 b 5 show ?thesis by blast
qed

end
